theory Spec2Isabelle
  imports Main
begin

section \<open>Values of the scraper\<close>

text \<open>
  A calendar date (\<open>datetime.date\<close>) is its proleptic Gregorian ordinal, the number
  \<open>date.toordinal()\<close> returns: day 1 is 0001-01-01 and \<open>date.max\<close> is day 3652059.
  The order of dates is the order of their ordinals.
\<close>

type_synonym date = int

definition MINORDINAL :: int where
  "MINORDINAL = 1"

definition MAXORDINAL :: int where
  "MAXORDINAL = 3652059"

text \<open>
  The exceptions of the model. Each carries the text \<open>str(e)\<close> gives. All of them
  derive from \<open>Exception\<close>; \<open>ReError\<close> is \<open>re.error\<close>, \<open>RequestException\<close> the
  transport errors of \<open>requests\<close> and \<open>WebDriverException\<close> those of the browser.
\<close>

datatype exn_class =
  ValueError | TypeError | OverflowError | AttributeError | KeyError | IndexError | ReError
  | RequestException | WebDriverException

datatype exn = Raised (exn_class: exn_class) (exn_str: string)

text \<open>The two classes of the result of \<open>ipaddress.ip_address\<close>.\<close>

datatype ip_version = IPv4Address | IPv6Address

text \<open>
  What a scraper holds as the date of an article: the \<open>date\<close> that \<open>strptime\<close>
  parsed, a string (the marker \<open>'No Date'\<close> of \<open>parse_date\<close>), or \<open>None\<close>
  (what \<open>calculate_article_date\<close> returns for a text it does not recognise).
\<close>

datatype article_date = DateStr string | DateVal date | DateNone

text \<open>The \<open>tags\<close> argument of \<open>Article\<close>: \<open>None\<close>, one string, or a list of strings.\<close>

datatype article_tags = TagsNone | TagsStr string | TagsList "string list"

text \<open>
  \<open>class Article\<close>. The field \<open>image\<close> is named \<open>image_url\<close> here. A field that
  the source may leave \<open>None\<close> is an \<open>option\<close>.
\<close>

record Article =
  title :: "string option"
  url :: "string option"
  date :: article_date
  source :: string
  tags :: article_tags
  description :: "string option"
  image_url :: "string option"
  content :: "string option"

text \<open>
  An element of a parsed page (\<open>bs4.Tag\<close>, \<open>BeautifulSoup\<close>), given by what the
  library lets the scraper observe of it: its attributes, \<open>get_text(strip=True)\<close>,
  \<open>select(selector)\<close>, and \<open>find_all(names, class_=...)\<close>.
\<close>

datatype element =
  Element (attrs: "(string \<times> string) list")
          (get_text: string)
          (select: "string \<Rightarrow> element list")
          (find_all: "string list \<Rightarrow> string option \<Rightarrow> element list")

text \<open>
  \<open>tag.select_one(selector)\<close> is the first result of \<open>select\<close>, and
  \<open>tag.find(name, class_=c)\<close> the first result of \<open>find_all\<close>; each is \<open>None\<close> when
  there is no result.
\<close>

definition select_one :: "element \<Rightarrow> string \<Rightarrow> element option" where
  "select_one tag selector = (case select tag selector of [] \<Rightarrow> None | el # _ \<Rightarrow> Some el)"

definition find_first :: "element \<Rightarrow> string list \<Rightarrow> string option \<Rightarrow> element option" where
  "find_first tag names cls = (case find_all tag names cls of [] \<Rightarrow> None | el # _ \<Rightarrow> Some el)"

record response =
  status_code :: int
  resp_text :: string

text \<open>
  The libraries and the network, which the source calls and this development takes as
  given:
  \<^item> \<open>strptime s f\<close> is \<open>datetime.strptime(s, f).date()\<close> on two strings: the date, or
    the exception raised (\<open>ValueError\<close> when the text does not match the format);
  \<^item> \<open>ip_address s\<close> is \<open>ipaddress.ip_address(s)\<close>, of which \<open>urllib.parse\<close> looks
    only at the class of the result: the class, or the \<open>ValueError\<close> raised for a text
    that is no IPv4 and no IPv6 address;
  \<^item> \<open>nfkc s\<close> is \<open>unicodedata.normalize('NFKC', s)\<close>, given by its code points (they
    need not be below 256);
  \<^item> \<open>requests_get\<close> and \<open>cloudscraper_get\<close> are the two HTTP clients: a response, or
    the transport error raised;
  \<^item> \<open>driver_get u\<close> is \<open>driver.page_source\<close> after \<open>driver.get(u)\<close> in the browser, or
    the exception the browser raised;
  \<^item> \<open>parse_html\<close> is \<open>BeautifulSoup(content, 'html.parser')\<close>;
  \<^item> \<open>py_hash\<close> is the built-in \<open>hash\<close> on a pair whose components are strings or
    \<open>None\<close>.
\<close>

record env =
  strptime :: "string \<Rightarrow> string \<Rightarrow> exn + date"
  ip_address :: "string \<Rightarrow> exn + ip_version"
  nfkc :: "string \<Rightarrow> nat list"
  requests_get :: "string \<Rightarrow> exn + response"
  cloudscraper_get :: "string \<Rightarrow> exn + response"
  driver_get :: "string \<Rightarrow> exn + string"
  parse_html :: "string \<Rightarrow> element"
  py_hash :: "string option \<times> string option \<Rightarrow> int"

section \<open>BaseScraper: dates\<close>

text \<open>
  \<open>parse_date(date_str, date_format)\<close>. The argument is \<open>None\<close> where a caller passed
  the \<open>None\<close> default of \<open>extract_text\<close>; \<open>strptime\<close> then raises \<open>TypeError\<close>.
  Only \<open>ValueError\<close> is caught.
\<close>

definition parse_date :: "env \<Rightarrow> string option \<Rightarrow> string \<Rightarrow> exn + article_date" where
  "parse_date e date_str date_format =
     (case date_str of
        None \<Rightarrow> Inl (Raised TypeError ''strptime() argument 1 must be str, not None'')
      | Some s \<Rightarrow>
          (case strptime e s date_format of
             Inr d \<Rightarrow> Inr (DateVal d)
           | Inl x \<Rightarrow> if exn_class x = ValueError then Inr (DateStr ''No Date'') else Inl x))"

text \<open>
  The value of \<open>isinstance(article_date, str) or (article_date and article_date >= self.min_date)\<close>:
  \<open>True\<close>, \<open>False\<close> or \<open>None\<close>. A \<open>date\<close> object is always true, \<open>None\<close> is false,
  so for \<open>None\<close> the expression is \<open>False or None\<close>, that is \<open>None\<close>.
\<close>

datatype pybool = PyTrue | PyFalse | PyNone

fun truthy :: "pybool \<Rightarrow> bool" where
  "truthy PyTrue = True"
| "truthy PyFalse = False"
| "truthy PyNone = False"

fun is_article_valid :: "date \<Rightarrow> article_date \<Rightarrow> pybool" where
  "is_article_valid min_date (DateStr s) = PyTrue"
| "is_article_valid min_date (DateVal d) = (if d \<ge> min_date then PyTrue else PyFalse)"
| "is_article_valid min_date DateNone = PyNone"

section \<open>BaseScraper: fetching\<close>

text \<open>
  \<open>fetch_page_content(url, use_cloudscraper)\<close>. The call of the HTTP client is not inside
  a \<open>try\<close>, so what the client raises leaves the function. The result is the value
  returned together with the lines printed.
\<close>

definition fetch_page_content :: "env \<Rightarrow> string \<Rightarrow> bool \<Rightarrow> exn + (string option \<times> string list)" where
  "fetch_page_content e u use_cloudscraper =
     (case (if use_cloudscraper then cloudscraper_get e u else requests_get e u) of
        Inl x \<Rightarrow> Inl x
      | Inr r \<Rightarrow>
          if status_code r = 200 then Inr (Some (resp_text r), [])
          else Inr (None, [''Failed to retrieve '' @ u]))"

section \<open>Strings of Python\<close>

text \<open>
  A \<open>char\<close> is a code point below 256. \<open>str.replace(old, new)\<close> for one-character
  strings, \<open>sep.join(xs)\<close>, \<open>s.split(sep)\<close> for a one-character separator, and
  \<open>re.sub(r'[^\x20-\x7E]+', '', s)\<close>, which deletes each maximal run of characters
  outside the range.
\<close>

definition str_replace :: "char \<Rightarrow> char \<Rightarrow> string \<Rightarrow> string" where
  "str_replace old new s = map (\<lambda>c. if c = old then new else c) s"

fun str_join :: "string \<Rightarrow> string list \<Rightarrow> string" where
  "str_join sep [] = []"
| "str_join sep [x] = x"
| "str_join sep (x # y # ys) = x @ sep @ str_join sep (y # ys)"

fun str_split :: "char \<Rightarrow> string \<Rightarrow> string list" where
  "str_split sep [] = [[]]"
| "str_split sep (c # cs) =
     (if c = sep then [] # str_split sep cs
      else (case str_split sep cs of
              [] \<Rightarrow> [[c]]
            | w # ws \<Rightarrow> (c # w) # ws))"

definition printable :: "char \<Rightarrow> bool" where
  "printable c = ((0x20::nat) \<le> of_char c \<and> of_char c \<le> (0x7E::nat))"

function sub_non_printable :: "string \<Rightarrow> string" where
  "sub_non_printable [] = []"
| "sub_non_printable (c # cs) =
     (if printable c then c # sub_non_printable cs
      else sub_non_printable (dropWhile (\<lambda>x. \<not> printable x) cs))"
  by pat_completeness auto
termination
  by (relation "measure length") (auto simp: less_Suc_eq_le length_dropWhile_le)

section \<open>urllib.parse.urljoin\<close>

text \<open>
  \<open>extract_link\<close> calls \<open>urljoin\<close> of the standard library, which is embedded here from
  \<open>Lib/urllib/parse.py\<close> of CPython 3.11 for two \<open>str\<close> arguments (\<open>_coerce_args\<close> is then
  the identity, and the cache of \<open>urlsplit\<close> does not change what it returns or raises).
  The three tables of schemes of the module:
\<close>

definition uses_relative :: "string list" where
  "uses_relative =
     ['''', ''ftp'', ''http'', ''gopher'', ''nntp'', ''imap'', ''wais'', ''file'', ''https'',
      ''shttp'', ''mms'', ''prospero'', ''rtsp'', ''rtsps'', ''rtspu'', ''sftp'', ''svn'',
      ''svn+ssh'', ''ws'', ''wss'']"

definition uses_netloc :: "string list" where
  "uses_netloc =
     ['''', ''ftp'', ''http'', ''gopher'', ''nntp'', ''telnet'', ''imap'', ''wais'', ''file'',
      ''mms'', ''https'', ''shttp'', ''snews'', ''prospero'', ''rtsp'', ''rtsps'', ''rtspu'',
      ''rsync'', ''svn'', ''svn+ssh'', ''sftp'', ''nfs'', ''git'', ''git+ssh'', ''ws'', ''wss'']"

definition uses_params :: "string list" where
  "uses_params =
     ['''', ''ftp'', ''hdl'', ''prospero'', ''http'', ''imap'', ''https'', ''shttp'', ''rtsp'',
      ''rtsps'', ''rtspu'', ''sip'', ''sips'', ''mms'', ''sftp'', ''tel'']"

text \<open>
  The tests on one character: \<open>c.isascii() and c.isalpha()\<close>, \<open>c in scheme_chars\<close>
  (letters, digits and \<open>+-.\<close>), \<open>c in _WHATWG_C0_CONTROL_OR_SPACE\<close> (code points 0 to
  32) and \<open>c in _UNSAFE_URL_BYTES_TO_REMOVE\<close> (tab, carriage return, newline).
  \<open>ascii_lower\<close> is \<open>str.lower\<close> on a character of a scheme.
\<close>

definition ascii_alpha :: "char \<Rightarrow> bool" where
  "ascii_alpha c =
     (((65::nat) \<le> of_char c \<and> of_char c \<le> (90::nat))
      \<or> ((97::nat) \<le> of_char c \<and> of_char c \<le> (122::nat)))"

definition scheme_char :: "char \<Rightarrow> bool" where
  "scheme_char c =
     (ascii_alpha c \<or> ((48::nat) \<le> of_char c \<and> of_char c \<le> (57::nat))
      \<or> c = CHR ''+'' \<or> c = CHR ''-'' \<or> c = CHR ''.'')"

definition ascii_lower :: "char \<Rightarrow> char" where
  "ascii_lower c =
     (if (65::nat) \<le> of_char c \<and> of_char c \<le> (90::nat) then char_of (of_char c + (32::nat))
      else c)"

definition c0_control_or_space :: "char \<Rightarrow> bool" where
  "c0_control_or_space c = (of_char c \<le> (0x20::nat))"

definition unsafe_url_byte :: "char \<Rightarrow> bool" where
  "unsafe_url_byte c = (c = CHR 0x09 \<or> c = CHR 0x0D \<or> c = CHR 0x0A)"

text \<open>
  \<open>s.strip(chars)\<close>; \<open>s.partition(c)[0]\<close> and \<open>s.partition(c)[2]\<close>, which for a string
  with no \<open>c\<close> are the string and the empty string; and \<open>_splitnetloc(url, start)\<close>, which
  cuts \<open>url[start:]\<close> at the first of \<open>/\<close>, \<open>?\<close> and \<open>#\<close>.
\<close>

definition str_strip_chars :: "(char \<Rightarrow> bool) \<Rightarrow> string \<Rightarrow> string" where
  "str_strip_chars p s = rev (dropWhile p (rev (dropWhile p s)))"

definition before_char :: "char \<Rightarrow> string \<Rightarrow> string" where
  "before_char c s = takeWhile (\<lambda>x. x \<noteq> c) s"

definition after_char :: "char \<Rightarrow> string \<Rightarrow> string" where
  "after_char c s = tl (dropWhile (\<lambda>x. x \<noteq> c) s)"

definition netloc_delim :: "char \<Rightarrow> bool" where
  "netloc_delim c = (c = CHR ''/'' \<or> c = CHR ''?'' \<or> c = CHR ''#'')"

definition splitnetloc :: "string \<Rightarrow> nat \<Rightarrow> string \<times> string" where
  "splitnetloc u start =
     (takeWhile (\<lambda>c. \<not> netloc_delim c) (drop start u),
      dropWhile (\<lambda>c. \<not> netloc_delim c) (drop start u))"

text \<open>
  \<open>_check_bracketed_host(hostname)\<close>. \<open>match_ipvfuture\<close> is
  \<open>re.match(r"\Av[a-fA-F0-9]+\..+\Z", hostname)\<close>: the run of hexadecimal digits after
  the \<open>v\<close> is taken whole (a shorter run would be followed by a digit, not by the dot),
  and \<open>.\<close> is any character but the newline.
\<close>

definition hex_digit :: "char \<Rightarrow> bool" where
  "hex_digit c =
     (((48::nat) \<le> of_char c \<and> of_char c \<le> (57::nat))
      \<or> ((65::nat) \<le> of_char c \<and> of_char c \<le> (70::nat))
      \<or> ((97::nat) \<le> of_char c \<and> of_char c \<le> (102::nat)))"

definition match_ipvfuture :: "string \<Rightarrow> bool" where
  "match_ipvfuture hostname =
     (case hostname of
        [] \<Rightarrow> False
      | v # rest \<Rightarrow>
          v = CHR ''v'' \<and> takeWhile hex_digit rest \<noteq> []
          \<and> (case dropWhile hex_digit rest of
                [] \<Rightarrow> False
              | d # tail \<Rightarrow> d = CHR ''.'' \<and> tail \<noteq> [] \<and> CHR 0x0A \<notin> set tail))"

definition check_bracketed_host :: "env \<Rightarrow> string \<Rightarrow> exn + unit" where
  "check_bracketed_host e hostname =
     (if take 1 hostname = ''v''
        then (if \<not> match_ipvfuture hostname
                then Inl (Raised ValueError ''IPvFuture address is invalid'')
              else Inr ())
      else (case ip_address e hostname of
              Inl x \<Rightarrow> Inl x
            | Inr IPv4Address \<Rightarrow>
                Inl (Raised ValueError ''An IPv4 address cannot be in brackets'')
            | Inr IPv6Address \<Rightarrow> Inr ()))"

text \<open>
  \<open>_checknetloc(netloc)\<close>: for a network location that is not ASCII, the characters
  \<open>@:#?\<close> are deleted and the rest is normalised; a normal form that differs and holds
  one of \<open>/?#@:\<close> is refused.
\<close>

definition checknetloc :: "env \<Rightarrow> string \<Rightarrow> exn + unit" where
  "checknetloc e netloc =
     (if netloc = [] \<or> list_all (\<lambda>c. of_char c < (128::nat)) netloc then Inr ()
      else (let n = filter (\<lambda>c. c \<notin> set ''@:#?'') netloc;
                netloc2 = nfkc e n
            in if map of_char n = netloc2 then Inr ()
               else if list_ex (\<lambda>c. of_char c \<in> set netloc2) ''/?#@:''
                 then Inl (Raised ValueError
                             (''netloc '' @ [CHR 0x27] @ netloc @ [CHR 0x27]
                              @ '' contains invalid characters under NFKC normalization''))
               else Inr ()))"

text \<open>
  \<open>urlsplit(url, scheme)\<close>, which returns (scheme, netloc, path, query, fragment) or
  raises \<open>ValueError\<close>. \<open>url.find(':')\<close> is the length of the text before the first
  colon when there is one.
\<close>

definition urlsplit ::
  "env \<Rightarrow> string \<Rightarrow> string \<Rightarrow> exn + (string \<times> string \<times> string \<times> string \<times> string)" where
  "urlsplit e url0 scheme =
     (let url1 = filter (\<lambda>c. \<not> unsafe_url_byte c) (dropWhile c0_control_or_space url0);
          scheme1 = filter (\<lambda>c. \<not> unsafe_url_byte c) (str_strip_chars c0_control_or_space scheme);
          i = length (before_char CHR '':'' url1);
          (scheme2, url2) =
            (if CHR '':'' \<in> set url1 \<and> i > 0 \<and> ascii_alpha (hd url1)
                \<and> list_all scheme_char (take i url1)
               then (map ascii_lower (take i url1), drop (i + 1) url1)
             else (scheme1, url1))
      in case (if take 2 url2 = ''//''
                 then (let (netloc, rest) = splitnetloc url2 2
                       in if (CHR ''['' \<in> set netloc \<and> CHR '']'' \<notin> set netloc)
                             \<or> (CHR '']'' \<in> set netloc \<and> CHR ''['' \<notin> set netloc)
                            then Inl (Raised ValueError ''Invalid IPv6 URL'')
                          else if CHR ''['' \<in> set netloc \<and> CHR '']'' \<in> set netloc
                            then (case check_bracketed_host e
                                         (before_char CHR '']'' (after_char CHR ''['' netloc)) of
                                    Inl x \<Rightarrow> Inl x
                                  | Inr _ \<Rightarrow> Inr (netloc, rest))
                          else Inr (netloc, rest))
               else Inr ([], url2)) of
           Inl x \<Rightarrow> Inl x
         | Inr (netloc, url3) \<Rightarrow>
             (let (url4, fragment) =
                    (if CHR ''#'' \<in> set url3
                       then (before_char CHR ''#'' url3, after_char CHR ''#'' url3)
                     else (url3, []));
                  (url5, query) =
                    (if CHR ''?'' \<in> set url4
                       then (before_char CHR ''?'' url4, after_char CHR ''?'' url4)
                     else (url4, []))
              in case checknetloc e netloc of
                   Inl x \<Rightarrow> Inl x
                 | Inr _ \<Rightarrow> Inr (scheme2, netloc, url5, query, fragment)))"

text \<open>
  \<open>_splitparams(url)\<close> cuts at the first \<open>;\<close> of the last segment of the path. In its
  \<open>else\<close> branch \<open>find\<close> returns -1 for a text with no \<open>;\<close>, and the slices are
  \<open>url[:-1]\<close> and \<open>url[0:]\<close>; \<open>urlparse\<close> calls it only for a text with one.
\<close>

definition splitparams :: "string \<Rightarrow> string \<times> string" where
  "splitparams u =
     (if CHR ''/'' \<in> set u
        then (let r = length u - 1 - length (before_char CHR ''/'' (rev u));
                  i = r + length (before_char CHR '';'' (drop r u))
              in if CHR '';'' \<notin> set (drop r u) then (u, [])
                 else (take i u, drop (i + 1) u))
      else if CHR '';'' \<in> set u
        then (take (length (before_char CHR '';'' u)) u,
              drop (length (before_char CHR '';'' u) + 1) u)
      else (butlast u, u))"

definition urlparse ::
  "env \<Rightarrow> string \<Rightarrow> string
     \<Rightarrow> exn + (string \<times> string \<times> string \<times> string \<times> string \<times> string)" where
  "urlparse e url0 scheme =
     (case urlsplit e url0 scheme of
        Inl x \<Rightarrow> Inl x
      | Inr (scheme', netloc, url', query, fragment) \<Rightarrow>
          (let (url'', params) =
                 (if scheme' \<in> set uses_params \<and> CHR '';'' \<in> set url' then splitparams url'
                  else (url', []))
           in Inr (scheme', netloc, url'', params, query, fragment)))"

text \<open>\<open>urlunsplit(components)\<close> and \<open>urlunparse(components)\<close>.\<close>

definition urlunsplit :: "string \<times> string \<times> string \<times> string \<times> string \<Rightarrow> string" where
  "urlunsplit components =
     (case components of (scheme, netloc, url0, query, fragment) \<Rightarrow>
        (let url1 = (if netloc \<noteq> [] \<or> (scheme \<noteq> [] \<and> scheme \<in> set uses_netloc)
                        \<or> take 2 url0 = ''//''
                       then ''//'' @ netloc
                            @ (if url0 \<noteq> [] \<and> take 1 url0 \<noteq> ''/'' then ''/'' @ url0 else url0)
                     else url0);
             url2 = (if scheme \<noteq> [] then scheme @ '':'' @ url1 else url1);
             url3 = (if query \<noteq> [] then url2 @ ''?'' @ query else url2)
         in if fragment \<noteq> [] then url3 @ ''#'' @ fragment else url3))"

definition urlunparse ::
  "string \<times> string \<times> string \<times> string \<times> string \<times> string \<Rightarrow> string" where
  "urlunparse components =
     (case components of (scheme, netloc, url0, params, query, fragment) \<Rightarrow>
        urlunsplit (scheme, netloc, if params \<noteq> [] then url0 @ '';'' @ params else url0,
                    query, fragment))"

text \<open>
  \<open>urljoin(base, url)\<close>. \<open>filter_inner\<close> is
  \<open>segments[1:-1] = filter(None, segments[1:-1])\<close>, and \<open>resolve_segment\<close> the body of
  the loop \<open>for seg in segments\<close>, where \<open>pop\<close> on the empty list raises an \<open>IndexError\<close>
  that is caught and ignored. The scheme of the base is the default of the scheme of
  \<open>url\<close> (named \<open>url0\<close> here); what either \<open>urlparse\<close> raises leaves \<open>urljoin\<close>.
\<close>

definition filter_inner :: "string list \<Rightarrow> string list" where
  "filter_inner segments =
     (if length segments \<le> 2 then segments
      else hd segments # filter (\<lambda>s. s \<noteq> []) (butlast (tl segments)) @ [last segments])"

definition resolve_segment :: "string list \<Rightarrow> string \<Rightarrow> string list" where
  "resolve_segment resolved_path seg =
     (if seg = ''..'' then butlast resolved_path
      else if seg = ''.'' then resolved_path
      else resolved_path @ [seg])"

definition urljoin :: "env \<Rightarrow> string \<Rightarrow> string \<Rightarrow> exn + string" where
  "urljoin e base url0 =
     (if base = [] then Inr url0
      else if url0 = [] then Inr base
      else
        (case urlparse e base [] of
           Inl x \<Rightarrow> Inl x
         | Inr (bscheme, bnetloc, bpath, bparams, bquery, bfragment) \<Rightarrow>
             (case urlparse e url0 bscheme of
                Inl x \<Rightarrow> Inl x
              | Inr (scheme, netloc, path, params, query, fragment) \<Rightarrow>
                  if scheme \<noteq> bscheme \<or> scheme \<notin> set uses_relative then Inr url0
                  else if scheme \<in> set uses_netloc \<and> netloc \<noteq> []
                    then Inr (urlunparse (scheme, netloc, path, params, query, fragment))
                  else
                    (let netloc' = (if scheme \<in> set uses_netloc then bnetloc else netloc)
                     in if path = [] \<and> params = []
                          then Inr (urlunparse (scheme, netloc', bpath, bparams,
                                                if query = [] then bquery else query, fragment))
                        else
                          (let base_parts0 = str_split CHR ''/'' bpath;
                               base_parts = (if last base_parts0 \<noteq> [] then butlast base_parts0
                                             else base_parts0);
                               segments = (if take 1 path = ''/'' then str_split CHR ''/'' path
                                           else filter_inner
                                                  (base_parts @ str_split CHR ''/'' path));
                               resolved_path0 = foldl resolve_segment [] segments;
                               resolved_path = (if last segments = ''.'' \<or> last segments = ''..''
                                                  then resolved_path0 @ [[]]
                                                else resolved_path0);
                               joined = str_join ''/'' resolved_path
                           in Inr (urlunparse (scheme, netloc',
                                               if joined = [] then ''/'' else joined,
                                               params, query, fragment)))))))"

section \<open>BaseScraper: selector helpers\<close>

text \<open>
  \<open>extract_text(tag, selector, default)\<close>. For a tag that is \<open>None\<close> the
  \<open>AttributeError\<close> of \<open>None.select_one\<close> is caught by the \<open>except Exception\<close> of the
  function, which returns the default. (\<open>select_one\<close> itself raises only for a
  malformed selector, and every selector of the source is a literal.)
\<close>

definition extract_text :: "element option \<Rightarrow> string \<Rightarrow> string option \<Rightarrow> string option" where
  "extract_text tag selector default_value =
     (case tag of
        None \<Rightarrow> default_value
      | Some t \<Rightarrow>
          (case select_one t selector of
             Some el \<Rightarrow> Some (get_text el)
           | None \<Rightarrow> default_value))"

text \<open>
  \<open>extract_link(tag, selector, base_url, default)\<close>. The tag may be \<open>None\<close>
  (\<open>get_next_page_url\<close> passes the result of a \<open>select_one\<close>); with a selector,
  \<open>None.select_one\<close> raises \<open>AttributeError\<close>. A \<open>Tag\<close> is always true. The function has
  no \<open>try\<close>: the \<open>ValueError\<close> of \<open>urljoin\<close> for a malformed \<open>href\<close> leaves it.
\<close>

definition extract_link ::
  "env \<Rightarrow> element option \<Rightarrow> string \<Rightarrow> string \<Rightarrow> string option \<Rightarrow> exn + string option" where
  "extract_link e tag selector base_url default_value =
     (case (if selector \<noteq> []
            then (case tag of
                    None \<Rightarrow> Inl (Raised AttributeError
                              ''NoneType object has no attribute select_one'')
                  | Some t \<Rightarrow> Inr (select_one t selector))
            else Inr tag) of
        Inl x \<Rightarrow> Inl x
      | Inr None \<Rightarrow> Inr default_value
      | Inr (Some t) \<Rightarrow>
          (case map_of (attrs t) ''href'' of
             Some href \<Rightarrow>
               (case urljoin e base_url href of
                  Inl x \<Rightarrow> Inl x
                | Inr u \<Rightarrow> Inr (Some u))
           | None \<Rightarrow> Inr default_value))"

text \<open>
  \<open>extract_image(tag, selector, attribute, default)\<close>. When the element has none of
  the attributes, \<open>image\<close> is unbound at the \<open>return\<close>; the \<open>UnboundLocalError\<close> is
  caught by the \<open>except Exception\<close> of the function, which returns the default. So is
  the \<open>AttributeError\<close> for a tag that is \<open>None\<close>.
\<close>

definition extract_image ::
  "element option \<Rightarrow> string \<Rightarrow> string \<Rightarrow> string option \<Rightarrow> string option" where
  "extract_image tag selector attribute default_value =
     (case tag of
        None \<Rightarrow> default_value
      | Some t \<Rightarrow>
          (case select_one t selector of
             None \<Rightarrow> default_value
           | Some el \<Rightarrow>
               (if attribute \<noteq> ''src'' \<and> map_of (attrs el) attribute \<noteq> None
                  then map_of (attrs el) attribute
                else if map_of (attrs el) ''src'' \<noteq> None then map_of (attrs el) ''src''
                else if map_of (attrs el) ''data-cfsrc'' \<noteq> None
                  then map_of (attrs el) ''data-cfsrc''
                else if map_of (attrs el) ''data-srcset'' \<noteq> None
                  then map_of (attrs el) ''data-srcset''
                else default_value)))"

subsection \<open>extract_content\<close>

text \<open>The \<open>for p in paragraphs\<close> loop; \<open>acc\<close> is \<open>processed_paragraphs\<close>.\<close>

fun process_paragraphs :: "element list \<Rightarrow> string list \<Rightarrow> string list" where
  "process_paragraphs [] acc = acc"
| "process_paragraphs (p # ps) acc =
     (let text = get_text p in
      if text \<noteq> []
        then process_paragraphs ps
               (acc @ [str_replace CHR '','' CHR '' '' (str_replace (CHR 0x0A) CHR '' '' text)])
        else process_paragraphs ps acc)"

definition extract_content :: "element \<Rightarrow> string \<Rightarrow> string" where
  "extract_content soup content_selector =
     (case select_one soup content_selector of
        Some content_div \<Rightarrow>
          (let paragraphs = find_all content_div [''p'', ''h2'', ''h3'', ''li''] None;
               processed_paragraphs = process_paragraphs paragraphs []
           in sub_non_printable (str_join '' || '' processed_paragraphs))
      | None \<Rightarrow> [])"

text \<open>
  What C9 says of \<open>extract_content\<close>, word for word: the texts of the elements, the
  empty ones dropped, joined with \<open>" || "\<close>, and the characters outside the printable
  range removed from the joined result.
\<close>

definition extract_content_as_claimed :: "element \<Rightarrow> string \<Rightarrow> string" where
  "extract_content_as_claimed soup content_selector =
     (case select_one soup content_selector of
        Some content_div \<Rightarrow>
          filter printable
            (str_join '' || ''
               (filter (\<lambda>t. t \<noteq> [])
                  (map get_text (find_all content_div [''p'', ''h2'', ''h3'', ''li''] None))))
      | None \<Rightarrow> [])"

text \<open>The decimal numeral an f-string writes for a natural number.\<close>

definition digit_char :: "nat \<Rightarrow> char" where
  "digit_char d = char_of (48 + d)"

fun str_nat :: "nat \<Rightarrow> string" where
  "str_nat n = (if n < 10 then [digit_char n] else str_nat (n div 10) @ [digit_char (n mod 10)])"

declare str_nat.simps [simp del]

section \<open>InfoSecurityMagazineScraper\<close>

text \<open>
  \<open>extract_article_content(article_url)\<close>. \<open>not page_content\<close> holds for \<open>None\<close> and for
  the empty string. The link is never \<open>None\<close> here (the default of \<open>extract_link\<close> is
  the empty string); \<open>requests.get(None)\<close> raises \<open>MissingSchema\<close>.
\<close>

definition InfoSecurityMagazineScraper_extract_article_content ::
  "env \<Rightarrow> string option \<Rightarrow> exn + string option" where
  "InfoSecurityMagazineScraper_extract_article_content e article_url =
     (case article_url of
        None \<Rightarrow> Inl (Raised RequestException ''Invalid URL None'')
      | Some u \<Rightarrow>
          (case fetch_page_content e u False of
             Inl x \<Rightarrow> Inl x
           | Inr (page_content, printed) \<Rightarrow>
               (case page_content of
                  None \<Rightarrow> Inr None
                | Some c \<Rightarrow>
                    if c = [] then Inr None
                    else Inr (Some (extract_content (parse_html e c) ''div.content-module'')))))"

definition InfoSecurityMagazineScraper_extract_articles :: "element \<Rightarrow> element list" where
  "InfoSecurityMagazineScraper_extract_articles soup =
     (case find_first soup [''ol''] (Some ''webpages-list'') of
        None \<Rightarrow> []
      | Some main_articles_container \<Rightarrow>
          find_all main_articles_container [''li''] (Some ''webpage-item''))"

text \<open>\<open>extract_article_details(article)\<close>: the \<open>Article\<close>, or \<open>None\<close> for a date that is not valid.\<close>

definition InfoSecurityMagazineScraper_extract_article_details ::
  "env \<Rightarrow> string \<Rightarrow> date \<Rightarrow> element \<Rightarrow> exn + Article option" where
  "InfoSecurityMagazineScraper_extract_article_details e base_url min_date article =
     (let date_str = extract_text (Some article) ''time'' None in
      case parse_date e date_str ''%d %b %Y'' of
        Inl x \<Rightarrow> Inl x
      | Inr article_date \<Rightarrow>
          if \<not> truthy (is_article_valid min_date article_date) then Inr None
          else
            (let title' = extract_text (Some article) ''h2.h3.webpage-title'' (Some ''No Title'') in
             case extract_link e (Some article) ''h2.h3.webpage-title a'' base_url (Some []) of
               Inl x \<Rightarrow> Inl x
             | Inr link \<Rightarrow>
                 (let description' = extract_text (Some article) ''p.webpage-summary''
                                      (Some ''No description available'');
                      image' = extract_image (Some article) ''img.webpage-thumb'' ''src'' (Some [])
                  in case InfoSecurityMagazineScraper_extract_article_content e link of
                       Inl x \<Rightarrow> Inl x
                     | Inr content' \<Rightarrow>
                         Inr (Some \<lparr>title = title', url = link, date = article_date,
                                    source = ''InfoSecurity Magazine'', tags = TagsNone,
                                    description = description', image_url = image',
                                    content = content'\<rparr>))))"

text \<open>
  The \<open>for article in article_items\<close> loop of \<open>scrape\<close>: the articles collected and
  the flag \<open>stop_scraping\<close>. An \<open>Article\<close> is always true, so the \<open>else\<close> branch is
  taken exactly when \<open>extract_article_details\<close> returned \<open>None\<close>.
\<close>

fun InfoSecurityMagazineScraper_articles_loop ::
  "env \<Rightarrow> string \<Rightarrow> date \<Rightarrow> element list \<Rightarrow> Article list \<Rightarrow> exn + (Article list \<times> bool)" where
  "InfoSecurityMagazineScraper_articles_loop e base_url min_date [] all_articles =
     Inr (all_articles, False)"
| "InfoSecurityMagazineScraper_articles_loop e base_url min_date (article # rest) all_articles =
     (case InfoSecurityMagazineScraper_extract_article_details e base_url min_date article of
        Inl x \<Rightarrow> Inl x
      | Inr None \<Rightarrow> Inr (all_articles, True)
      | Inr (Some article_details) \<Rightarrow>
          InfoSecurityMagazineScraper_articles_loop e base_url min_date rest
            (all_articles @ [article_details]))"

text \<open>
  The \<open>while not stop_scraping\<close> loop of \<open>scrape\<close>, from page \<open>page_number\<close> on. The
  site decides how many pages there are, so the loop carries fuel: one unit for each
  page, and \<open>None\<close> when the fuel ends before the loop does.
\<close>

fun InfoSecurityMagazineScraper_scrape_loop ::
  "env \<Rightarrow> string \<Rightarrow> date \<Rightarrow> nat \<Rightarrow> nat \<Rightarrow> Article list \<Rightarrow> (exn + Article list) option" where
  "InfoSecurityMagazineScraper_scrape_loop e base_url min_date 0 page_number all_articles = None"
| "InfoSecurityMagazineScraper_scrape_loop e base_url min_date (Suc fuel) page_number all_articles =
     (let current_url = (if page_number > 1
                         then base_url @ ''/page-'' @ str_nat page_number @ ''/''
                         else base_url) in
      case fetch_page_content e current_url False of
        Inl x \<Rightarrow> Some (Inl x)
      | Inr (page_content, printed) \<Rightarrow>
          (case page_content of
             None \<Rightarrow> Some (Inr all_articles)
           | Some c \<Rightarrow>
               if c = [] then Some (Inr all_articles)
               else
                 (let soup = parse_html e c;
                      article_items = InfoSecurityMagazineScraper_extract_articles soup
                  in if article_items = [] then Some (Inr all_articles)
                     else
                       (case InfoSecurityMagazineScraper_articles_loop e base_url min_date
                               article_items all_articles of
                          Inl x \<Rightarrow> Some (Inl x)
                        | Inr (all_articles', stop_scraping) \<Rightarrow>
                            if stop_scraping then Some (Inr all_articles')
                            else InfoSecurityMagazineScraper_scrape_loop e base_url min_date
                                   fuel (page_number + 1) all_articles'))))"

definition InfoSecurityMagazineScraper_scrape ::
  "env \<Rightarrow> string \<Rightarrow> date \<Rightarrow> nat \<Rightarrow> (exn + Article list) option" where
  "InfoSecurityMagazineScraper_scrape e base_url min_date fuel =
     InfoSecurityMagazineScraper_scrape_loop e base_url min_date fuel 1 []"

section \<open>CISAScraper\<close>

definition CISAScraper_extract_articles :: "element \<Rightarrow> element list" where
  "CISAScraper_extract_articles soup =
     find_all soup [''article''] (Some ''is-promoted c-teaser c-teaser--horizontal'')"

definition CISAScraper_extract_article_content :: "env \<Rightarrow> string option \<Rightarrow> exn + string option" where
  "CISAScraper_extract_article_content e article_url =
     (case article_url of
        None \<Rightarrow> Inl (Raised RequestException ''Invalid URL None'')
      | Some u \<Rightarrow>
          (case fetch_page_content e u True of
             Inl x \<Rightarrow> Inl x
           | Inr (page_content, printed) \<Rightarrow>
               (case page_content of
                  None \<Rightarrow> Inr None
                | Some c \<Rightarrow>
                    if c = [] then Inr None
                    else Inr (Some (extract_content (parse_html e c)
                                      ''div.l-page-section__content'')))))"

text \<open>
  \<open>extract_article_details(container)\<close>. The text of the meta line is never \<open>None\<close> (the
  default of \<open>extract_text\<close> is the empty string); \<open>None.split\<close> raises \<open>AttributeError\<close>.
\<close>

definition CISAScraper_extract_article_details ::
  "env \<Rightarrow> date \<Rightarrow> element \<Rightarrow> exn + Article option" where
  "CISAScraper_extract_article_details e min_date container =
     (let date_text = extract_text (Some container) ''div.c-teaser__date'' (Some []) in
      case parse_date e date_text ''%b %d, %Y'' of
        Inl x \<Rightarrow> Inl x
      | Inr article_date \<Rightarrow>
          if \<not> truthy (is_article_valid min_date article_date) then Inr None
          else
            (let title' = extract_text (Some container) ''h3.c-teaser__title'' (Some []) in
             case extract_link e (Some container) ''h3.c-teaser__title a''
                    ''https://www.cisa.gov'' (Some []) of
               Inl x \<Rightarrow> Inl x
             | Inr article_url \<Rightarrow>
                 (case extract_text (Some container) ''div.c-teaser__meta'' (Some []) of
                    None \<Rightarrow> Inl (Raised AttributeError
                              ''NoneType object has no attribute split'')
                  | Some meta \<Rightarrow>
                      (let tags' = str_split CHR ''|'' meta in
                       case CISAScraper_extract_article_content e article_url of
                         Inl x \<Rightarrow> Inl x
                       | Inr content' \<Rightarrow>
                           Inr (Some \<lparr>title = title', url = article_url, date = article_date,
                                      source = ''CISA'', tags = TagsList tags',
                                      description = None, image_url = None,
                                      content = content'\<rparr>)))))"

text \<open>The \<open>for container in article_containers\<close> loop of \<open>scrape_page\<close>: it has no \<open>break\<close>.\<close>

fun CISAScraper_containers_loop ::
  "env \<Rightarrow> date \<Rightarrow> element list \<Rightarrow> Article list \<Rightarrow> exn + Article list" where
  "CISAScraper_containers_loop e min_date [] articles = Inr articles"
| "CISAScraper_containers_loop e min_date (container # rest) articles =
     (case CISAScraper_extract_article_details e min_date container of
        Inl x \<Rightarrow> Inl x
      | Inr None \<Rightarrow> CISAScraper_containers_loop e min_date rest articles
      | Inr (Some article_details) \<Rightarrow>
          CISAScraper_containers_loop e min_date rest (articles @ [article_details]))"

definition CISAScraper_scrape_page :: "env \<Rightarrow> date \<Rightarrow> string \<Rightarrow> exn + Article list" where
  "CISAScraper_scrape_page e min_date u =
     (case fetch_page_content e u True of
        Inl x \<Rightarrow> Inl x
      | Inr (page_content, printed) \<Rightarrow>
          (case page_content of
             None \<Rightarrow> Inr []
           | Some c \<Rightarrow>
               if c = [] then Inr []
               else
                 (let soup = parse_html e c;
                      article_containers = CISAScraper_extract_articles soup
                  in if article_containers = [] then Inr []
                     else CISAScraper_containers_loop e min_date article_containers [])))"

text \<open>The \<open>while True\<close> loop of \<open>scrape\<close>, with fuel as above.\<close>

fun CISAScraper_scrape_loop ::
  "env \<Rightarrow> string \<Rightarrow> date \<Rightarrow> nat \<Rightarrow> nat \<Rightarrow> Article list \<Rightarrow> (exn + Article list) option" where
  "CISAScraper_scrape_loop e base_url min_date 0 current_page all_articles = None"
| "CISAScraper_scrape_loop e base_url min_date (Suc fuel) current_page all_articles =
     (let u = (if current_page > 1 then base_url @ ''?page='' @ str_nat current_page
               else base_url) in
      case CISAScraper_scrape_page e min_date u of
        Inl x \<Rightarrow> Some (Inl x)
      | Inr page_articles \<Rightarrow>
          if page_articles = [] then Some (Inr all_articles)
          else CISAScraper_scrape_loop e base_url min_date fuel (current_page + 1)
                 (all_articles @ page_articles))"

definition CISAScraper_scrape :: "env \<Rightarrow> string \<Rightarrow> date \<Rightarrow> nat \<Rightarrow> (exn + Article list) option" where
  "CISAScraper_scrape e base_url min_date fuel =
     CISAScraper_scrape_loop e base_url min_date fuel 1 []"

section \<open>SecurityWeekScraper: relative dates\<close>

subsection \<open>The regular expression\<close>

text \<open>
  \<open>time_pattern = r'(\d+)\s*(day|hour|minute|second|week|month|year)s?\s*ago'\<close>, matched by
  \<open>re.search\<close>. Among the code points below 256, \<open>\d\<close> matches the ten ASCII digits and
  \<open>\s\<close> the twelve characters below.
\<close>

definition is_digit :: "char \<Rightarrow> bool" where
  "is_digit c = ((48::nat) \<le> of_char c \<and> of_char c \<le> (57::nat))"

definition is_space :: "char \<Rightarrow> bool" where
  "is_space c = ((of_char c :: nat) \<in> {9, 10, 11, 12, 13, 28, 29, 30, 31, 32, 133, 160})"

text \<open>
  A backtracking matcher in continuation style. \<open>first_some\<close> takes the first
  alternative that succeeds. \<open>greedy p lo s k\<close> is a greedy repetition of a character
  class, at least \<open>lo\<close> times: the longest run first, then shorter ones, each followed
  by the rest of the pattern \<open>k\<close>.
\<close>

fun first_some :: "'a option list \<Rightarrow> 'a option" where
  "first_some [] = None"
| "first_some (None # xs) = first_some xs"
| "first_some (Some x # xs) = Some x"

definition greedy :: "(char \<Rightarrow> bool) \<Rightarrow> nat \<Rightarrow> string \<Rightarrow> (string \<Rightarrow> string \<Rightarrow> 'a option) \<Rightarrow> 'a option" where
  "greedy p lo s k =
     first_some (map (\<lambda>n. k (take n s) (drop n s)) (rev [lo ..< Suc (length (takeWhile p s))]))"

definition match_lit :: "string \<Rightarrow> string \<Rightarrow> (string \<Rightarrow> 'a option) \<Rightarrow> 'a option" where
  "match_lit lit s k = (if take (length lit) s = lit then k (drop (length lit) s) else None)"

definition time_units :: "string list" where
  "time_units = [''day'', ''hour'', ''minute'', ''second'', ''week'', ''month'', ''year'']"

text \<open>\<open>\s*ago\<close>, the end of the pattern, with the two groups found so far.\<close>

definition match_ago :: "string \<Rightarrow> string \<Rightarrow> string \<Rightarrow> (string \<times> string) option" where
  "match_ago g1 g2 s =
     greedy is_space 0 s (\<lambda>ws r. match_lit ''ago'' r (\<lambda>r'. Some (g1, g2)))"

text \<open>\<open>\s*(day|...|year)s?\s*ago\<close>, what follows group 1.\<close>

definition match_unit :: "string \<Rightarrow> string \<Rightarrow> (string \<times> string) option" where
  "match_unit g1 s =
     greedy is_space 0 s (\<lambda>ws r.
       first_some (map (\<lambda>u. match_lit u r (\<lambda>r'.
         first_some [match_lit ''s'' r' (match_ago g1 u), match_ago g1 u r'])) time_units))"

text \<open>The whole pattern, anchored at the start of \<open>s\<close>: groups 1 and 2 of the match.\<close>

definition time_pattern_at :: "string \<Rightarrow> (string \<times> string) option" where
  "time_pattern_at s = greedy is_digit 1 s match_unit"

text \<open>\<open>re.search\<close>: the match at the leftmost position that has one.\<close>

fun re_search_time_pattern :: "string \<Rightarrow> (string \<times> string) option" where
  "re_search_time_pattern [] = time_pattern_at []"
| "re_search_time_pattern (c # cs) =
     (case time_pattern_at (c # cs) of
        Some m \<Rightarrow> Some m
      | None \<Rightarrow> re_search_time_pattern cs)"

text \<open>
  \<open>int(s)\<close> on a string of ASCII digits: the number, or \<open>ValueError\<close> for more than
  4300 digits (the default of \<open>sys.set_int_max_str_digits\<close>, CPython 3.11 and later).
\<close>

definition digits_value :: "string \<Rightarrow> int" where
  "digits_value s = foldl (\<lambda>a c. 10 * a + (int (of_char c) - 48)) 0 s"

definition py_int :: "string \<Rightarrow> exn + int" where
  "py_int s =
     (if length s > 4300
        then Inl (Raised ValueError ''Exceeds the limit (4300 digits) for integer string conversion'')
      else Inr (digits_value s))"

subsection \<open>datetime and timedelta\<close>

text \<open>
  A \<open>datetime\<close> is its day and the second of that day; the microseconds are left
  out, every offset here being whole seconds. \<open>timedelta days seconds\<close> is the
  constructor, normalised to days and seconds of a day; it raises \<open>OverflowError\<close>
  beyond 999999999 days. \<open>datetime_sub\<close> is \<open>datetime - timedelta\<close>, which raises
  \<open>OverflowError\<close> when the day leaves the range of \<open>date\<close>.
\<close>

record datetime =
  dt_ordinal :: int
  dt_second :: int

definition datetime_valid :: "datetime \<Rightarrow> bool" where
  "datetime_valid t =
     (MINORDINAL \<le> dt_ordinal t \<and> dt_ordinal t \<le> MAXORDINAL \<and> 0 \<le> dt_second t \<and> dt_second t < 86400)"

definition timedelta :: "int \<Rightarrow> int \<Rightarrow> exn + (int \<times> int)" where
  "timedelta days seconds =
     (let total = days * 86400 + seconds; d = total div 86400
      in if - 999999999 \<le> d \<and> d \<le> 999999999 then Inr (d, total mod 86400)
         else Inl (Raised OverflowError ''days must have magnitude <= 999999999''))"

definition datetime_sub :: "datetime \<Rightarrow> int \<times> int \<Rightarrow> exn + datetime" where
  "datetime_sub t td =
     (let total = dt_ordinal t * 86400 + dt_second t - (fst td * 86400 + snd td);
          d = total div 86400
      in if MINORDINAL \<le> d \<and> d \<le> MAXORDINAL
         then Inr \<lparr>dt_ordinal = d, dt_second = total mod 86400\<rparr>
         else Inl (Raised OverflowError ''date value out of range''))"

subsection \<open>calculate_article_date\<close>

text \<open>
  \<open>calculate_article_date(relative_time_str)\<close>, with \<open>today\<close> the value of
  \<open>datetime.now()\<close>. The result is the \<open>date\<close>, or \<open>None\<close>.
\<close>

definition unit_delta :: "string \<Rightarrow> int \<Rightarrow> (exn + (int \<times> int)) option" where
  "unit_delta time_unit quantity =
     (if time_unit = ''day'' then Some (timedelta quantity 0)
      else if time_unit = ''hour'' then Some (timedelta 0 (3600 * quantity))
      else if time_unit = ''minute'' then Some (timedelta 0 (60 * quantity))
      else if time_unit = ''second'' then Some (timedelta 0 quantity)
      else if time_unit = ''week'' then Some (timedelta (7 * quantity) 0)
      else if time_unit = ''month'' then Some (timedelta (30 * quantity) 0)
      else if time_unit = ''year'' then Some (timedelta (365 * quantity) 0)
      else None)"

definition calculate_article_date :: "datetime \<Rightarrow> string \<Rightarrow> exn + date option" where
  "calculate_article_date today relative_time_str =
     (case re_search_time_pattern relative_time_str of
        None \<Rightarrow> Inr None
      | Some (g1, time_unit) \<Rightarrow>
          (case py_int g1 of
             Inl x \<Rightarrow> Inl x
           | Inr quantity \<Rightarrow>
               (case unit_delta time_unit quantity of
                  None \<Rightarrow> Inr None
                | Some (Inl x) \<Rightarrow> Inl x
                | Some (Inr td) \<Rightarrow>
                    (case datetime_sub today td of
                       Inl x \<Rightarrow> Inl x
                     | Inr article_date \<Rightarrow> Inr (Some (dt_ordinal article_date))))))"

section \<open>CyberSecurityDiveScraper\<close>

subsection \<open>Cleaning the text of the date\<close>

text \<open>
  \<open>s.replace(old, new)\<close> for strings: the occurrences of \<open>old\<close> from left to right,
  without overlap; for an empty \<open>old\<close>, \<open>new\<close> is put before every character and at the
  end. \<open>s.strip()\<close> removes the white space at both ends.
\<close>

fun replace_nonempty :: "string \<Rightarrow> string \<Rightarrow> string \<Rightarrow> string" where
  "replace_nonempty old new [] = []"
| "replace_nonempty old new (c # cs) =
     (if take (length old) (c # cs) = old
        then new @ replace_nonempty old new (drop (length old - 1) cs)
      else c # replace_nonempty old new cs)"

definition str_replace_sub :: "string \<Rightarrow> string \<Rightarrow> string \<Rightarrow> string" where
  "str_replace_sub old new s =
     (if old = [] then new @ concat (map (\<lambda>c. c # new) s) else replace_nonempty old new s)"

definition str_strip :: "string \<Rightarrow> string" where
  "str_strip s = rev (dropWhile is_space (rev (dropWhile is_space s)))"

text \<open>
  \<open>re.sub(r'(\b\w+\.)', lambda match: match.group(1).replace('.', ''), date_text)\<close>.
  Among the code points below 256, \<open>\w\<close> matches the characters of \<open>is_word\<close>.
  \<open>word_dot_at s\<close> matches \<open>\w+\.\<close> at the start of \<open>s\<close> and gives the length of the
  word; the match is replaced by the word without its full stop. \<open>\b\<close> holds where the
  character before is not a word character (\<open>prev_word\<close> is false), the one after being
  one.
\<close>

definition is_word :: "char \<Rightarrow> bool" where
  "is_word c =
     (let n = (of_char c :: nat) in
      (48 \<le> n \<and> n \<le> 57) \<or> (65 \<le> n \<and> n \<le> 90) \<or> n = 95 \<or> (97 \<le> n \<and> n \<le> 122)
      \<or> n = 170 \<or> n = 178 \<or> n = 179 \<or> n = 181 \<or> n = 185 \<or> n = 186
      \<or> (188 \<le> n \<and> n \<le> 190) \<or> (192 \<le> n \<and> n \<le> 214) \<or> (216 \<le> n \<and> n \<le> 246)
      \<or> (248 \<le> n \<and> n \<le> 255))"

definition word_dot_at :: "string \<Rightarrow> nat option" where
  "word_dot_at s = greedy is_word 1 s (\<lambda>w r. match_lit ''.'' r (\<lambda>r'. Some (length w)))"

fun re_sub_word_dot :: "bool \<Rightarrow> string \<Rightarrow> string" where
  "re_sub_word_dot prev_word [] = []"
| "re_sub_word_dot prev_word (c # cs) =
     (case (if prev_word then None else word_dot_at (c # cs)) of
        Some k \<Rightarrow> take k (c # cs) @ re_sub_word_dot False (drop k cs)
      | None \<Rightarrow> c # re_sub_word_dot (is_word c) cs)"

subsection \<open>The scraper\<close>

definition CyberSecurityDiveScraper_extract_articles :: "element \<Rightarrow> element list" where
  "CyberSecurityDiveScraper_extract_articles soup =
     find_all soup [''li''] (Some ''row feed__item'')"

text \<open>\<open>extract_article_date(soup)\<close>: the string \<open>'No Date'\<close>, or what \<open>parse_date\<close> gives.\<close>

definition CyberSecurityDiveScraper_extract_article_date ::
  "env \<Rightarrow> element \<Rightarrow> exn + article_date" where
  "CyberSecurityDiveScraper_extract_article_date e soup =
     (case (case find_first soup [''div''] (Some ''date date-bottom-border'') of
              Some date_tag \<Rightarrow> Some date_tag
            | None \<Rightarrow>
                find_first soup [''div'']
                  (Some ''post-author-text-byline post-author-text-byline-date'')) of
        None \<Rightarrow> Inr (DateStr ''No Date'')
      | Some date_tag \<Rightarrow>
          (let date_text = str_strip (str_replace_sub ''Updated '' []
                             (str_replace_sub ''Published '' [] (get_text date_tag)));
               date_text = str_replace_sub ''Sept.'' ''Sep.'' date_text;
               date_text = re_sub_word_dot False date_text
           in parse_date e (Some date_text) ''%b %d, %Y''))"

text \<open>
  \<open>extract_article_content(article_url)\<close>: the date, the content and the image of the
  page of the article; three times \<open>None\<close> when the page cannot be had.
\<close>

definition CyberSecurityDiveScraper_extract_article_content ::
  "env \<Rightarrow> string option \<Rightarrow> exn + (article_date \<times> string option \<times> string option)" where
  "CyberSecurityDiveScraper_extract_article_content e article_url =
     (case article_url of
        None \<Rightarrow> Inl (Raised RequestException ''Invalid URL None'')
      | Some u \<Rightarrow>
          (case fetch_page_content e u False of
             Inl x \<Rightarrow> Inl x
           | Inr (page_content, printed) \<Rightarrow>
               (case page_content of
                  None \<Rightarrow> Inr (DateNone, None, None)
                | Some c \<Rightarrow>
                    if c = [] then Inr (DateNone, None, None)
                    else
                      (let soup = parse_html e c in
                       case CyberSecurityDiveScraper_extract_article_date e soup of
                         Inl x \<Rightarrow> Inl x
                       | Inr article_date \<Rightarrow>
                           (let content' = extract_content soup ''div.large.medium.article-body'';
                                image_container =
                                  find_first soup [''div'']
                                    (Some ''figure_content article-hero-img'');
                                image' = extract_image image_container ''img'' ''src'' (Some [])
                            in Inr (article_date, Some content', image'))))))"

text \<open>
  \<open>extract_featured_article_details(article, main)\<close>. The date comes from the page of
  the article and goes into the \<open>Article\<close> as it is.
\<close>

definition CyberSecurityDiveScraper_extract_featured_article_details ::
  "env \<Rightarrow> string \<Rightarrow> element \<Rightarrow> bool \<Rightarrow> exn + Article" where
  "CyberSecurityDiveScraper_extract_featured_article_details e base_url article main =
     (let selector = (if main then ''h1 a'' else ''h3 a'');
          title' = extract_text (Some article) selector (Some [])
      in case extract_link e (Some article) selector base_url (Some []) of
           Inl x \<Rightarrow> Inl x
         | Inr link \<Rightarrow>
             (let description' = (if main
                                  then extract_text (Some article) ''p.hero-article__teaser''
                                         (Some [])
                                  else None)
              in case CyberSecurityDiveScraper_extract_article_content e link of
                   Inl x \<Rightarrow> Inl x
                 | Inr (date', content', image') \<Rightarrow>
                     Inr \<lparr>title = title', url = link, date = date',
                          source = ''CyberSecurity Dive'', tags = TagsNone,
                          description = description', image_url = image',
                          content = content'\<rparr>))"

text \<open>The \<open>for story in top_stories\<close> loop of \<open>extract_featured_articles\<close>.\<close>

fun CyberSecurityDiveScraper_stories_loop ::
  "env \<Rightarrow> string \<Rightarrow> element list \<Rightarrow> Article list \<Rightarrow> exn + Article list" where
  "CyberSecurityDiveScraper_stories_loop e base_url [] featured_articles = Inr featured_articles"
| "CyberSecurityDiveScraper_stories_loop e base_url (story # rest) featured_articles =
     (case CyberSecurityDiveScraper_extract_featured_article_details e base_url story False of
        Inl x \<Rightarrow> Inl x
      | Inr a \<Rightarrow>
          CyberSecurityDiveScraper_stories_loop e base_url rest (featured_articles @ [a]))"

text \<open>
  \<open>extract_featured_articles(soup)\<close>. The filter \<open>if article\<close> of the last line keeps
  every \<open>Article\<close>, an \<open>Article\<close> being always true.
\<close>

definition CyberSecurityDiveScraper_extract_featured_articles ::
  "env \<Rightarrow> string \<Rightarrow> element \<Rightarrow> exn + Article list" where
  "CyberSecurityDiveScraper_extract_featured_articles e base_url soup =
     (let hero_article = select_one soup ''section.hero-article'';
          top_stories = select soup ''section.top-stories ol li''
      in case (case hero_article of
                 None \<Rightarrow> Inr []
               | Some hero \<Rightarrow>
                   (case CyberSecurityDiveScraper_extract_featured_article_details e base_url
                           hero True of
                      Inl x \<Rightarrow> Inl x
                    | Inr a \<Rightarrow> Inr [a])) of
           Inl x \<Rightarrow> Inl x
         | Inr featured_articles \<Rightarrow>
             CyberSecurityDiveScraper_stories_loop e base_url top_stories featured_articles)"

definition CyberSecurityDiveScraper_extract_article_details ::
  "env \<Rightarrow> string \<Rightarrow> date \<Rightarrow> element \<Rightarrow> exn + Article option" where
  "CyberSecurityDiveScraper_extract_article_details e base_url min_date article =
     (let title' = extract_text (Some article) ''h3.feed__title'' (Some []) in
      case extract_link e (Some article) ''a'' base_url (Some []) of
        Inl x \<Rightarrow> Inl x
      | Inr link \<Rightarrow>
          (let description' = extract_text (Some article) ''p.feed__description'' (Some []) in
           case CyberSecurityDiveScraper_extract_article_content e link of
             Inl x \<Rightarrow> Inl x
           | Inr (article_date, content', image') \<Rightarrow>
               if \<not> truthy (is_article_valid min_date article_date) then Inr None
               else Inr (Some \<lparr>title = title', url = link, date = article_date,
                                source = ''CyberSecurity Dive'', tags = TagsNone,
                                description = description', image_url = image',
                                content = content'\<rparr>)))"

text \<open>The \<open>for article in articles\<close> loop of \<open>scrape\<close>, with the flag \<open>stop_scraping\<close>.\<close>

fun CyberSecurityDiveScraper_articles_loop ::
  "env \<Rightarrow> string \<Rightarrow> date \<Rightarrow> element list \<Rightarrow> Article list \<Rightarrow> exn + (Article list \<times> bool)" where
  "CyberSecurityDiveScraper_articles_loop e base_url min_date [] all_articles =
     Inr (all_articles, False)"
| "CyberSecurityDiveScraper_articles_loop e base_url min_date (article # rest) all_articles =
     (case CyberSecurityDiveScraper_extract_article_details e base_url min_date article of
        Inl x \<Rightarrow> Inl x
      | Inr None \<Rightarrow> Inr (all_articles, True)
      | Inr (Some article_details) \<Rightarrow>
          CyberSecurityDiveScraper_articles_loop e base_url min_date rest
            (all_articles @ [article_details]))"

text \<open>
  The \<open>while not stop_scraping\<close> loop of \<open>scrape\<close>, with fuel. On the first page the
  featured articles are added to \<open>all_articles\<close> before the loop over the articles.
\<close>

fun CyberSecurityDiveScraper_scrape_loop ::
  "env \<Rightarrow> string \<Rightarrow> date \<Rightarrow> nat \<Rightarrow> nat \<Rightarrow> Article list \<Rightarrow> (exn + Article list) option" where
  "CyberSecurityDiveScraper_scrape_loop e base_url min_date 0 page_number all_articles = None"
| "CyberSecurityDiveScraper_scrape_loop e base_url min_date (Suc fuel) page_number all_articles =
     (let current_url = (if page_number > 1 then base_url @ ''?page='' @ str_nat page_number
                         else base_url) in
      case fetch_page_content e current_url False of
        Inl x \<Rightarrow> Some (Inl x)
      | Inr (page_content, printed) \<Rightarrow>
          (case page_content of
             None \<Rightarrow> Some (Inr all_articles)
           | Some c \<Rightarrow>
               if c = [] then Some (Inr all_articles)
               else
                 (let soup = parse_html e c;
                      articles = CyberSecurityDiveScraper_extract_articles soup
                  in if articles = [] then Some (Inr all_articles)
                     else
                       (case (if page_number = 1
                              then (case CyberSecurityDiveScraper_extract_featured_articles e
                                           base_url soup of
                                      Inl x \<Rightarrow> Inl x
                                    | Inr featured_articles \<Rightarrow>
                                        Inr (all_articles @ featured_articles))
                              else Inr all_articles) of
                          Inl x \<Rightarrow> Some (Inl x)
                        | Inr all_articles' \<Rightarrow>
                            (case CyberSecurityDiveScraper_articles_loop e base_url min_date
                                    articles all_articles' of
                               Inl x \<Rightarrow> Some (Inl x)
                             | Inr (all_articles'', stop_scraping) \<Rightarrow>
                                 if stop_scraping then Some (Inr all_articles'')
                                 else CyberSecurityDiveScraper_scrape_loop e base_url min_date
                                        fuel (page_number + 1) all_articles'')))))"

definition CyberSecurityDiveScraper_scrape ::
  "env \<Rightarrow> string \<Rightarrow> date \<Rightarrow> nat \<Rightarrow> (exn + Article list) option" where
  "CyberSecurityDiveScraper_scrape e base_url min_date fuel =
     CyberSecurityDiveScraper_scrape_loop e base_url min_date fuel 1 []"

section \<open>DragosScraper\<close>









section \<open>Article identity and the run over the selected sites\<close>

text \<open>\<open>Article.__eq__\<close> and \<open>Article.__hash__\<close>.\<close>

definition Article_eq :: "Article \<Rightarrow> Article \<Rightarrow> bool" where
  "Article_eq a b = (title a = title b \<and> url a = url b)"

definition Article_hash :: "env \<Rightarrow> Article \<Rightarrow> int" where
  "Article_hash e a = py_hash e (title a, url a)"

text \<open>
  A Python \<open>set\<close> of articles is the list of its elements. \<open>set_add\<close> is \<open>set.add\<close>:
  an element with the same hash that is equal to the new one keeps its place, and the
  new one is dropped. \<open>py_set\<close> is \<open>set(xs)\<close> and \<open>set_update\<close> is \<open>s.update(t)\<close>. The
  order of the list is not the order in which Python iterates over the set.
\<close>

definition set_add :: "env \<Rightarrow> Article list \<Rightarrow> Article \<Rightarrow> Article list" where
  "set_add e s a =
     (if list_ex (\<lambda>b. Article_hash e b = Article_hash e a \<and> Article_eq b a) s then s
      else s @ [a])"

definition py_set :: "env \<Rightarrow> Article list \<Rightarrow> Article list" where
  "py_set e xs = foldl (set_add e) [] xs"

definition set_update :: "env \<Rightarrow> Article list \<Rightarrow> Article list \<Rightarrow> Article list" where
  "set_update e s t = foldl (set_add e) s t"

text \<open>
  One row of the configuration. \<open>scraper_class c u min_date driver\<close> stands for
  \<open>config['scraper_class'](config['url'], min_date, driver).scrape()\<close>: the list
  returned or the exception raised, and the shared browser as the site left it; \<open>None\<close>
  when the scrape does not return.
\<close>

record 'd config =
  name :: string
  site_url :: string
  scraper_class :: "string \<Rightarrow> date \<Rightarrow> 'd \<Rightarrow> ((exn + Article list) \<times> 'd) option"

text \<open>
  The \<open>for config in configs\<close> loop of \<open>scrape_selected_sites\<close>, with its three
  variables: \<open>all_articles\<close>, \<open>errors\<close> and the browser.
\<close>

fun sites_loop ::
  "env \<Rightarrow> date \<Rightarrow> 'd config list \<Rightarrow> 'd \<Rightarrow> Article list \<Rightarrow> (string \<times> string) list
   \<Rightarrow> (Article list \<times> (string \<times> string) list \<times> 'd) option" where
  "sites_loop e min_date [] driver all_articles errors = Some (all_articles, errors, driver)"
| "sites_loop e min_date (c # rest) driver all_articles errors =
     (case scraper_class c (site_url c) min_date driver of
        None \<Rightarrow> None
      | Some (Inr scraped, driver') \<Rightarrow>
          (let articles = py_set e scraped
           in sites_loop e min_date rest driver' (set_update e all_articles articles) errors)
      | Some (Inl x, driver') \<Rightarrow>
          sites_loop e min_date rest driver' all_articles (errors @ [(name c, exn_str x)]))"

text \<open>
  \<open>scrape_selected_sites(configs, min_date)\<close>. \<open>create_webdriver\<close> is called outside the
  \<open>try\<close>. The result is the set returned together with the list \<open>errors\<close>, which the
  source prints.
\<close>

definition scrape_selected_sites ::
  "env \<Rightarrow> (exn + 'd) \<Rightarrow> 'd config list \<Rightarrow> date
   \<Rightarrow> (exn + (Article list \<times> (string \<times> string) list)) option" where
  "scrape_selected_sites e create_webdriver configs min_date =
     (case create_webdriver of
        Inl x \<Rightarrow> Some (Inl x)
      | Inr driver \<Rightarrow>
          (case sites_loop e min_date configs driver [] [] of
             None \<Rightarrow> None
           | Some (all_articles, errors, driver') \<Rightarrow> Some (Inr (all_articles, errors))))"

text \<open>
  What the selected sites do when they are run one after the other, each on the browser
  as the one before left it, whether or not a site raised: for each site its name with
  the list it returned or the exception it raised. \<open>None\<close> when some site does not
  return. \<open>raised\<close> keeps the sites that raised, with \<open>str(e)\<close>.
\<close>

fun site_outcomes ::
  "date \<Rightarrow> 'd config list \<Rightarrow> 'd \<Rightarrow> (string \<times> (exn + Article list)) list option" where
  "site_outcomes min_date [] driver = Some []"
| "site_outcomes min_date (c # rest) driver =
     (case scraper_class c (site_url c) min_date driver of
        None \<Rightarrow> None
      | Some (r, driver') \<Rightarrow>
          (case site_outcomes min_date rest driver' of
             None \<Rightarrow> None
           | Some outs \<Rightarrow> Some ((name c, r) # outs)))"

fun raised :: "(string \<times> (exn + Article list)) list \<Rightarrow> (string \<times> string) list" where
  "raised [] = []"
| "raised ((n, Inl x) # outs) = (n, exn_str x) # raised outs"
| "raised ((n, Inr scraped) # outs) = raised outs"

section \<open>A sample site\<close>

text \<open>
  Concrete pages, on which the functions above are run below. \<open>mk_element\<close> builds an
  element from its attributes, its text, and the tables of what \<open>select\<close> and
  \<open>find_all\<close> return; \<open>leaf\<close> is an element with nothing inside.
\<close>

definition mk_element ::
  "(string \<times> string) list \<Rightarrow> string \<Rightarrow> (string \<times> element list) list
   \<Rightarrow> ((string list \<times> string option) \<times> element list) list \<Rightarrow> element" where
  "mk_element as t sels finds =
     Element as t
       (\<lambda>selector. case map_of sels selector of None \<Rightarrow> [] | Some es \<Rightarrow> es)
       (\<lambda>names cls. case map_of finds (names, cls) of None \<Rightarrow> [] | Some es \<Rightarrow> es)"

definition leaf :: "(string \<times> string) list \<Rightarrow> string \<Rightarrow> element" where
  "leaf as t = mk_element as t [] []"

text \<open>
  An entry of the listing of InfoSecurity Magazine: the texts of its \<open>time\<close> elements
  (none, or one), its title and the link of the title.
\<close>

definition infosec_item :: "string list \<Rightarrow> string \<Rightarrow> string \<Rightarrow> element" where
  "infosec_item time_texts t href =
     mk_element [] []
       [(''time'', map (leaf []) time_texts),
        (''h2.h3.webpage-title'', [leaf [] t]),
        (''h2.h3.webpage-title a'', [leaf [(''href'', href)] t])] []"

definition infosec_third_item :: element where
  "infosec_third_item = infosec_item [''05 Jan 2025''] ''Third'' ''https://news.example/a3''"

definition infosec_fourth_item :: element where
  "infosec_fourth_item = infosec_item [''01 Dec 2024''] ''Fourth'' ''https://news.example/a4''"

definition infosec_fifth_item :: element where
  "infosec_fifth_item = infosec_item [''10 Jan 2025''] ''Fifth'' ''https://news.example/a5''"

definition infosec_listing :: "element list \<Rightarrow> element" where
  "infosec_listing items =
     mk_element [] [] []
       [(([''ol''], Some ''webpages-list''),
         [mk_element [] [] [] [(([''li''], Some ''webpage-item''), items)]])]"

text \<open>An entry of the listing of CISA: the text of its date, its title and its link.\<close>

definition cisa_item :: "string \<Rightarrow> string \<Rightarrow> string \<Rightarrow> element" where
  "cisa_item d t href =
     mk_element [] []
       [(''div.c-teaser__date'', [leaf [] d]),
        (''h3.c-teaser__title'', [leaf [] t]),
        (''h3.c-teaser__title a'', [leaf [(''href'', href)] t]),
        (''div.c-teaser__meta'', [leaf [] ''Alert|ICS''])] []"

definition cisa_old_item :: element where
  "cisa_old_item = cisa_item ''Dec 01, 2024'' ''Old'' ''https://www.cisa.gov/old''"

definition cisa_new_item :: element where
  "cisa_new_item = cisa_item ''Jan 10, 2025'' ''New'' ''https://www.cisa.gov/new''"

definition cisa_listing :: "element list \<Rightarrow> element" where
  "cisa_listing items =
     mk_element [] [] []
       [(([''article''], Some ''is-promoted c-teaser c-teaser--horizontal''), items)]"

text \<open>
  The first page of CyberSecurity Dive: a hero article whose page is dated 2020-01-05, a
  top story whose page cannot be had, and one entry of the feed, dated 2025-01-10.
\<close>

definition dive_entry :: "string \<Rightarrow> string \<Rightarrow> string \<Rightarrow> element" where
  "dive_entry selector t href =
     mk_element [] []
       [(selector, [leaf [(''href'', href)] t]), (''h3.feed__title'', [leaf [] t])] []"

definition dive_feed_item :: element where
  "dive_feed_item = dive_entry ''a'' ''Feed'' ''https://dive.example/feed''"

definition dive_listing :: element where
  "dive_listing =
     mk_element [] []
       [(''section.hero-article'', [dive_entry ''h1 a'' ''Hero'' ''https://dive.example/hero'']),
        (''section.top-stories ol li'',
         [dive_entry ''h3 a'' ''Story'' ''https://dive.example/story''])]
       [(([''li''], Some ''row feed__item''), [dive_feed_item])]"


definition dive_page :: "string \<Rightarrow> element" where
  "dive_page d =
     mk_element [] [] [] [(([''div''], Some ''date date-bottom-border''), [leaf [] d])]"

text \<open>
  An entry of the blog of Dragos: the text of its meta line, its title, its link and
  the style of its thumbnail.
\<close>

definition dragos_item :: "string \<Rightarrow> string \<Rightarrow> string \<Rightarrow> string \<Rightarrow> element" where
  "dragos_item meta t href style =
     mk_element [] []
       [(''p.meta.meta--bottom'', [leaf [] meta]),
        (''h5.blog-posts-article--title a'', [leaf [(''href'', href)] t])]
       [(([''div''], Some ''blog-posts-thumbnail''), [leaf [(''style'', style)] []])]"

definition dragos_old_item :: element where
  "dragos_old_item =
     dragos_item ''12.01.24 | Blog'' ''Old'' ''https://dragos.example/old''
       ''background-image: url(old.png)''"

definition dragos_new_item :: element where
  "dragos_new_item =
     dragos_item ''01.10.25 | Blog'' ''New'' ''https://dragos.example/new''
       ''background-image: url( new.png )''"

definition dragos_listing :: element where
  "dragos_listing =
     mk_element [] [] []
       [(([''div''], Some ''facetwp-template row facetwp_blog_posts''),
         [mk_element [] [] []
            [(([''article''], Some ''blog-posts-article''),
              [dragos_old_item, dragos_new_item])]])]"

text \<open>The page of an article: three paragraphs, one of them empty, and a list item.\<close>

definition sample_detail :: element where
  "sample_detail =
     mk_element [] []
       [(''div.content-module'',
         [mk_element [] [] []
            [(([''p'', ''h2'', ''h3'', ''li''], None),
              [leaf [] ''a,b'', leaf [] [], leaf [] (''caf'' @ [CHR 0xE9]), leaf [] ''c''])]])] []"

text \<open>
  The libraries on the inputs used here. The days are 2025-01-10 (739261), 2025-01-05
  (739256), 2024-12-01 (739221) and 2020-01-05 (737429). For the format \<open>'%d %d'\<close>,
  which repeats a directive, \<open>strptime\<close> of CPython raises \<open>re.error\<close>. Of the
  addresses, \<open>::1\<close> is an IPv6 address and \<open>127.0.0.1\<close> an IPv4 address; the normal form
  of the feminine ordinal indicator (code point 170) is the letter \<open>a\<close>, and a text of
  ASCII characters is its own normal form.
\<close>

definition sample_strptime :: "string \<Rightarrow> string \<Rightarrow> exn + date" where
  "sample_strptime s f =
     (if f = ''%d %d''
        then Inl (Raised ReError ''redefinition of group name d as group 2; was group 1'')
      else case map_of [((''10 Jan 2025'', ''%d %b %Y''), 739261),
                        ((''05 Jan 2025'', ''%d %b %Y''), 739256),
                        ((''01 Dec 2024'', ''%d %b %Y''), 739221),
                        ((''Jan 10, 2025'', ''%b %d, %Y''), 739261),
                        ((''Dec 01, 2024'', ''%b %d, %Y''), 739221),
                        ((''Jan 5, 2020'', ''%b %d, %Y''), 737429),
                        ((''01.10.25'', ''%m.%d.%y''), 739261),
                        ((''12.01.24'', ''%m.%d.%y''), 739221)] (s, f) of
             Some d \<Rightarrow> Inr d
           | None \<Rightarrow> Inl (Raised ValueError ''time data does not match format''))"

definition sample_ip_address :: "string \<Rightarrow> exn + ip_version" where
  "sample_ip_address s =
     (if s = ''::1'' then Inr IPv6Address
      else if s = ''127.0.0.1'' then Inr IPv4Address
      else Inl (Raised ValueError
                  ([CHR 0x27] @ s @ [CHR 0x27]
                   @ '' does not appear to be an IPv4 or IPv6 address'')))"

definition sample_nfkc :: "string \<Rightarrow> nat list" where
  "sample_nfkc s = (if s = [CHR 0xAA] then [97] else map of_char s)"

definition sample_get :: "string \<Rightarrow> exn + response" where
  "sample_get u =
     (if u = ''https://down.example/'' then Inl (Raised RequestException ''Connection refused'')
      else case map_of [(''https://news.example'', ''listing 1''),
                        (''https://news.example/page-2/'', ''listing 2''),
                        (''https://news.example/a1'', ''detail 1''),
                        (''https://www.cisa.gov/news'', ''cisa listing''),
                        (''https://dive.example/'', ''dive listing''),
                        (''https://dive.example/hero'', ''dive hero''),
                        (''https://dive.example/feed'', ''dive feed'')] u of
             Some c \<Rightarrow> Inr \<lparr>status_code = 200, resp_text = c\<rparr>
           | None \<Rightarrow> Inr \<lparr>status_code = 404, resp_text = ''Not Found''\<rparr>)"

definition sample_parse_html :: "string \<Rightarrow> element" where
  "sample_parse_html c =
     (if c = ''listing 1''
        then infosec_listing
               [infosec_item [''10 Jan 2025''] ''First'' ''https://news.example/a1'',
                infosec_item [''yesterday''] ''Second'' ''https://news.example/a2'']
      else if c = ''listing 2''
        then infosec_listing [infosec_third_item, infosec_fourth_item, infosec_fifth_item]
      else if c = ''cisa listing''
        then cisa_listing [cisa_old_item, cisa_new_item]
      else if c = ''detail 1'' then sample_detail
      else if c = ''dragos listing'' then dragos_listing
      else if c = ''dive listing'' then dive_listing
      else if c = ''dive hero'' then dive_page ''Published Jan. 5, 2020''
      else if c = ''dive feed'' then dive_page ''Updated Jan. 10, 2025''
      else leaf [] [])"

definition sample_hash :: "string option \<times> string option \<Rightarrow> int" where
  "sample_hash k = (case fst k of None \<Rightarrow> 0 | Some t \<Rightarrow> int (length t))"

definition sample_env :: env where
  "sample_env =
     \<lparr>strptime = sample_strptime, ip_address = sample_ip_address, nfkc = sample_nfkc,
      requests_get = sample_get, cloudscraper_get = sample_get,
      driver_get = (\<lambda>u. Inr ''detail 1''), parse_html = sample_parse_html,
      py_hash = sample_hash\<rparr>"

text \<open>
  Four selected sites: the sample listing of InfoSecurity Magazine, a site whose server
  is down, the sample listing of CISA, and a site that returns the first article of the
  first site twice, with other fields. The browser is modelled by the number of sites
  it has served. \<open>sample_articles\<close> are the articles the run is expected to return;
  \<open>infosec_fifth\<close> is the article the fifth entry would give.
\<close>

definition mirror_first :: Article where
  "mirror_first =
     \<lparr>title = Some ''First'', url = Some ''https://news.example/a1'',
      date = DateStr ''No Date'', source = ''Mirror'', tags = TagsStr ''copy'',
      description = None, image_url = None, content = None\<rparr>"

definition mirror_second :: Article where
  "mirror_second =
     \<lparr>title = Some ''First'', url = Some ''https://news.example/a1'',
      date = DateNone, source = ''Mirror'', tags = TagsNone,
      description = None, image_url = None, content = Some ''again''\<rparr>"

definition sample_configs :: "nat config list" where
  "sample_configs =
     [\<lparr>name = ''InfoSecurity Magazine'', site_url = ''https://news.example'',
       scraper_class = (\<lambda>u m d.
         map_option (\<lambda>r. (r, d + 1)) (InfoSecurityMagazineScraper_scrape sample_env u m 5))\<rparr>,
      \<lparr>name = ''Down'', site_url = ''https://down.example/'',
       scraper_class = (\<lambda>u m d.
         map_option (\<lambda>r. (r, d + 1)) (InfoSecurityMagazineScraper_scrape sample_env u m 5))\<rparr>,
      \<lparr>name = ''CISA'', site_url = ''https://www.cisa.gov/news'',
       scraper_class = (\<lambda>u m d.
         map_option (\<lambda>r. (r, d + 1)) (CISAScraper_scrape sample_env u m 5))\<rparr>,
      \<lparr>name = ''Mirror'', site_url = ''https://mirror.example'',
       scraper_class = (\<lambda>u m d. Some (Inr [mirror_first, mirror_second], d + 1))\<rparr>]"

definition infosec_first :: Article where
  "infosec_first =
     \<lparr>title = Some ''First'', url = Some ''https://news.example/a1'',
      date = DateVal 739261, source = ''InfoSecurity Magazine'', tags = TagsNone,
      description = Some ''No description available'', image_url = Some [],
      content = Some ''a b || caf || c''\<rparr>"

definition infosec_second :: Article where
  "infosec_second =
     \<lparr>title = Some ''Second'', url = Some ''https://news.example/a2'',
      date = DateStr ''No Date'', source = ''InfoSecurity Magazine'', tags = TagsNone,
      description = Some ''No description available'', image_url = Some [],
      content = None\<rparr>"

definition infosec_third :: Article where
  "infosec_third =
     \<lparr>title = Some ''Third'', url = Some ''https://news.example/a3'',
      date = DateVal 739256, source = ''InfoSecurity Magazine'', tags = TagsNone,
      description = Some ''No description available'', image_url = Some [],
      content = None\<rparr>"


definition infosec_articles :: "Article list" where
  "infosec_articles = [infosec_first, infosec_second, infosec_third]"

definition cisa_new :: Article where
  "cisa_new =
     \<lparr>title = Some ''New'', url = Some ''https://www.cisa.gov/new'',
      date = DateVal 739261, source = ''CISA'', tags = TagsList [''Alert'', ''ICS''],
      description = None, image_url = None, content = None\<rparr>"

definition sample_articles :: "Article list" where
  "sample_articles = infosec_articles @ [cisa_new]"

text \<open>Noon of 2025-01-01, as \<open>datetime.now()\<close>.\<close>

definition sample_today :: datetime where
  "sample_today = \<lparr>dt_ordinal = 739252, dt_second = 43200\<rparr>"

text \<open>The three articles of the sample page of CyberSecurity Dive.\<close>

definition dive_hero :: Article where
  "dive_hero =
     \<lparr>title = Some ''Hero'', url = Some ''https://dive.example/hero'',
      date = DateVal 737429, source = ''CyberSecurity Dive'', tags = TagsNone,
      description = Some [], image_url = Some [], content = Some []\<rparr>"

definition dive_story :: Article where
  "dive_story =
     \<lparr>title = Some ''Story'', url = Some ''https://dive.example/story'',
      date = DateNone, source = ''CyberSecurity Dive'', tags = TagsNone,
      description = None, image_url = None, content = None\<rparr>"

definition dive_feed :: Article where
  "dive_feed =
     \<lparr>title = Some ''Feed'', url = Some ''https://dive.example/feed'',
      date = DateVal 739261, source = ''CyberSecurity Dive'', tags = TagsNone,
      description = Some [], image_url = Some [], content = Some []\<rparr>"


definition sample_outcomes :: "(string \<times> (exn + Article list)) list" where
  "sample_outcomes =
     [(''InfoSecurity Magazine'', Inr infosec_articles),
      (''Down'', Inl (Raised RequestException ''Connection refused'')),
      (''CISA'', Inr [cisa_new]),
      (''Mirror'', Inr [mirror_first, mirror_second])]"

section \<open>Properties\<close>

subsection \<open>Dates\<close>

text \<open>
  C10. \<open>is_article_valid\<close> is true for every string, whatever the string and whatever
  the cutoff, and it is not true for \<open>None\<close>. In particular a text that \<open>strptime\<close>
  rejects with \<open>ValueError\<close> becomes the string \<open>'No Date'\<close>, which is valid for every
  cutoff.
\<close>

theorem is_article_valid_any_string:
  "truthy (is_article_valid min_date (DateStr s))
   \<and> \<not> truthy (is_article_valid min_date DateNone)
   \<and> (strptime e t f = Inl (Raised ValueError msg) \<longrightarrow>
        parse_date e (Some t) f = Inr (DateStr ''No Date''))"
  by (simp add: parse_date_def)

theorem is_article_valid_any_string_witness:
  "strptime sample_env ''yesterday'' ''%d %b %Y''
     = Inl (Raised ValueError ''time data does not match format'')
   \<and> parse_date sample_env (Some ''yesterday'') ''%d %b %Y'' = Inr (DateStr ''No Date'')
   \<and> truthy (is_article_valid 739254 (DateStr ''No Date''))
   \<and> \<not> truthy (is_article_valid 739254 DateNone)"
  using is_article_valid_any_string [of 739254 "''No Date''" sample_env "''yesterday''"
          "''%d %b %Y''" "''time data does not match format''"]
  by (simp add: sample_env_def sample_strptime_def)

text \<open>
  C5, as stated, fails: \<open>parse_date\<close> catches \<open>ValueError\<close> only. For the text
  \<open>'01 01'\<close> and the format \<open>'%d %d'\<close>, \<open>datetime.strptime\<close> raises \<open>re.error\<close> (the
  format repeats a directive), and \<open>parse_date\<close> raises it too.
\<close>

theorem parse_date_raises_counterexample:
  "parse_date sample_env (Some ''01 01'') ''%d %d''
     = Inl (Raised ReError ''redefinition of group name d as group 2; was group 1'')"
  by (simp add: parse_date_def sample_env_def sample_strptime_def)

text \<open>
  C5, amended. For a text and a format, \<open>parse_date\<close> returns the date that
  \<open>strptime\<close> parsed; it returns \<open>'No Date'\<close> when \<open>strptime\<close> raises \<open>ValueError\<close>; any
  other exception of \<open>strptime\<close> leaves \<open>parse_date\<close>; and for \<open>None\<close> in place of the
  text it raises \<open>TypeError\<close>.
\<close>

theorem parse_date_only_ValueError:
  "(strptime e t f = Inr d \<longrightarrow> parse_date e (Some t) f = Inr (DateVal d))
   \<and> (strptime e t f = Inl x \<and> exn_class x = ValueError \<longrightarrow>
        parse_date e (Some t) f = Inr (DateStr ''No Date''))
   \<and> (strptime e t f = Inl x \<and> exn_class x \<noteq> ValueError \<longrightarrow>
        parse_date e (Some t) f = Inl x)
   \<and> (\<exists>m. parse_date e None f = Inl (Raised TypeError m))"
  by (simp add: parse_date_def)

theorem parse_date_only_ValueError_witness:
  "parse_date sample_env (Some ''10 Jan 2025'') ''%d %b %Y'' = Inr (DateVal 739261)
   \<and> parse_date sample_env (Some ''yesterday'') ''%d %b %Y'' = Inr (DateStr ''No Date'')
   \<and> parse_date sample_env (Some ''01 01'') ''%d %d''
       = Inl (Raised ReError ''redefinition of group name d as group 2; was group 1'')"
proof -
  have a: "strptime sample_env ''10 Jan 2025'' ''%d %b %Y'' = Inr 739261"
    by (simp add: sample_env_def sample_strptime_def)
  have b: "strptime sample_env ''yesterday'' ''%d %b %Y''
             = Inl (Raised ValueError ''time data does not match format'')"
    by (simp add: sample_env_def sample_strptime_def)
  have c: "strptime sample_env ''01 01'' ''%d %d''
             = Inl (Raised ReError ''redefinition of group name d as group 2; was group 1'')"
    by (simp add: sample_env_def sample_strptime_def)
  show ?thesis
    using parse_date_only_ValueError [of sample_env "''10 Jan 2025''" "''%d %b %Y''" 739261] a
          parse_date_only_ValueError [of sample_env "''yesterday''" "''%d %b %Y''" _
             "Raised ValueError ''time data does not match format''"] b
          parse_date_only_ValueError [of sample_env "''01 01''" "''%d %d''" _
             "Raised ReError ''redefinition of group name d as group 2; was group 1''"] c
    by simp
qed

subsection \<open>Fetching\<close>

text \<open>
  C6, as stated, fails for transport errors: the HTTP client is called outside any
  \<open>try\<close>, and what it raises is raised to the caller of \<open>fetch_page_content\<close>.
\<close>

theorem fetch_page_content_raises_counterexample:
  "fetch_page_content sample_env ''https://down.example/'' False
     = Inl (Raised RequestException ''Connection refused'')"
  by (simp add: fetch_page_content_def sample_env_def sample_get_def)

text \<open>
  C6, amended. In both fetch modes, \<open>fetch_page_content\<close> returns the body of a
  response with status 200; for any other status it returns \<open>None\<close> and prints one line
  naming the URL; an exception of the client is raised to the caller.
\<close>

theorem fetch_page_content_cases:
  assumes "client = (if use_cloudscraper then cloudscraper_get e u else requests_get e u)"
  shows "(client = Inr r \<and> status_code r = 200 \<longrightarrow>
            fetch_page_content e u use_cloudscraper = Inr (Some (resp_text r), []))
         \<and> (client = Inr r \<and> status_code r \<noteq> 200 \<longrightarrow>
            fetch_page_content e u use_cloudscraper = Inr (None, [''Failed to retrieve '' @ u]))
         \<and> (client = Inl x \<longrightarrow> fetch_page_content e u use_cloudscraper = Inl x)"
  using assms by (auto simp: fetch_page_content_def)

theorem fetch_page_content_cases_witness:
  "fetch_page_content sample_env ''https://news.example'' False = Inr (Some ''listing 1'', [])
   \<and> fetch_page_content sample_env ''https://news.example/a9'' True
       = Inr (None, [''Failed to retrieve https://news.example/a9''])
   \<and> fetch_page_content sample_env ''https://down.example/'' False
       = Inl (Raised RequestException ''Connection refused'')"
proof -
  have a: "requests_get sample_env ''https://news.example''
             = Inr \<lparr>status_code = 200, resp_text = ''listing 1''\<rparr>"
    by (simp add: sample_env_def sample_get_def)
  have b: "cloudscraper_get sample_env ''https://news.example/a9''
             = Inr \<lparr>status_code = 404, resp_text = ''Not Found''\<rparr>"
    by (simp add: sample_env_def sample_get_def)
  have c: "requests_get sample_env ''https://down.example/''
             = Inl (Raised RequestException ''Connection refused'')"
    by (simp add: sample_env_def sample_get_def)
  show ?thesis
    using fetch_page_content_cases [of _ False sample_env "''https://news.example''"
             "\<lparr>status_code = 200, resp_text = ''listing 1''\<rparr>", OF refl]
          fetch_page_content_cases [of _ True sample_env "''https://news.example/a9''"
             "\<lparr>status_code = 404, resp_text = ''Not Found''\<rparr>", OF refl]
          fetch_page_content_cases [of _ False sample_env "''https://down.example/''" _
             "Raised RequestException ''Connection refused''", OF refl]
          a b c
    by simp
qed

subsection \<open>Selector helpers\<close>

lemma urlunparse_netloc_scheme:
  "scheme \<noteq> [] \<Longrightarrow> scheme \<in> set uses_netloc \<Longrightarrow>
   \<exists>rest. urlunparse (scheme, netloc, path, params, query, fragment)
            = scheme @ ''://'' @ netloc @ rest"
  by (simp add: urlunparse_def urlunsplit_def Let_def)

lemma urlparse_empty: "urlparse e [] [] = Inr ([], [], [], [], [], [])"
  by code_simp

lemma urljoin_raises:
  "base \<noteq> [] \<Longrightarrow> href \<noteq> [] \<Longrightarrow>
   (urljoin e base href = Inl x) =
     (urlparse e base [] = Inl x
      \<or> (\<exists>b. urlparse e base [] = Inr b \<and> urlparse e href (fst b) = Inl x))"
  by (auto simp: urljoin_def Let_def split: sum.splits prod.splits)

lemma urljoin_absolute:
  assumes b: "urlparse e base [] = Inr (bscheme, bnetloc, bpath, bparams, bquery, bfragment)"
    and s: "bscheme \<noteq> []" "bscheme \<in> set uses_relative" "bscheme \<in> set uses_netloc"
    and h: "href \<noteq> []"
    and u: "urlparse e href bscheme = Inr (scheme, netloc, path, params, query, fragment)"
  shows "\<exists>u. urljoin e base href = Inr u
           \<and> (if scheme = bscheme
                then (\<exists>rest. u = bscheme @ ''://''
                                 @ (if netloc = [] then bnetloc else netloc) @ rest)
              else u = href)"
proof -
  have base: "base \<noteq> []"
    using b s(1) by (auto simp: urlparse_empty)
  show ?thesis
  proof (cases "scheme = bscheme")
    case False
    then show ?thesis
      using base h b u by (simp add: urljoin_def)
  next
    case True
    note n = urlunparse_netloc_scheme [OF s(1) s(3)]
    show ?thesis
      using base h b u s True n [of netloc path params query fragment]
        n [of bnetloc bpath bparams "if query = [] then bquery else query" fragment]
        n [of bnetloc _ params query fragment]
      by (simp add: urljoin_def Let_def)
  qed
qed

lemma urljoin_example: "urljoin e ''https://x.com/a/'' ''b'' = Inr ''https://x.com/a/b''"
  by code_simp

lemma urljoin_unbalanced:
  "urljoin e ''https://x.com/a/'' ''//['' = Inl (Raised ValueError ''Invalid IPv6 URL'')"
  by code_simp

text \<open>
  C8, as stated, fails: the element carries the href \<open>//[\<close>, which has no scheme,
  the base is \<open>https://x.com/a/\<close>, and \<open>extract_link\<close> returns no URL: it raises the
  \<open>ValueError\<close> of \<open>urljoin\<close>.
\<close>

theorem extract_link_raises_counterexample:
  "extract_link sample_env (Some (leaf [(''href'', ''//['')] ''next'')) [] ''https://x.com/a/''
     (Some [])
   = Inl (Raised ValueError ''Invalid IPv6 URL'')"
  by (simp add: extract_link_def leaf_def mk_element_def urljoin_unbalanced)

text \<open>
  C8, amended. Let \<open>selected\<close> be the element \<open>extract_link\<close> looks at: the tag itself for
  an empty selector, otherwise what \<open>select_one\<close> finds in it. When it carries an \<open>href\<close>,
  \<open>extract_link\<close> returns what \<open>urljoin(base_url, href)\<close> returns and raises what it
  raises. For a base and an href that are not empty, \<open>urljoin\<close> raises exactly what
  \<open>urlparse\<close> raises for the base or, with the scheme of the base as the default, for the
  href; for the base \<open>https://x.com/a/\<close> and the href \<open>//[\<close> that is the \<open>ValueError\<close>
  \<open>Invalid IPv6 URL\<close>. When both are parsed, the href is not empty, and the scheme of the
  base is not empty and stands in \<open>uses_relative\<close> and in \<open>uses_netloc\<close> (as \<open>http\<close> and
  \<open>https\<close> do), \<open>urljoin\<close> returns: the href itself when the href has another scheme than
  the base, and otherwise a URL that starts with the scheme of the base, \<open>://\<close>, and the
  network location of the href or, when the href has none, of the base. For the base
  \<open>https://x.com/a/\<close> and the href \<open>b\<close> the result is \<open>https://x.com/a/b\<close>. When no
  element is selected, or the element has no \<open>href\<close>, the result is the default.
\<close>

theorem extract_link_resolves:
  assumes "selected = (if selector = [] then Some t else select_one t selector)"
  shows "(selected = Some el \<and> map_of (attrs el) ''href'' = Some href \<longrightarrow>
            extract_link e (Some t) selector base_url default_value
              = (case urljoin e base_url href of Inl x \<Rightarrow> Inl x | Inr u \<Rightarrow> Inr (Some u)))
         \<and> (base_url \<noteq> [] \<and> href \<noteq> [] \<longrightarrow>
              (urljoin e base_url href = Inl x) =
                (urlparse e base_url [] = Inl x
                 \<or> (\<exists>b. urlparse e base_url [] = Inr b \<and> urlparse e href (fst b) = Inl x)))
         \<and> urljoin e ''https://x.com/a/'' ''//['' = Inl (Raised ValueError ''Invalid IPv6 URL'')
         \<and> (urlparse e base_url [] = Inr (bscheme, bnetloc, bpath, bparams, bquery, bfragment)
              \<and> bscheme \<noteq> [] \<and> bscheme \<in> set uses_relative \<and> bscheme \<in> set uses_netloc
              \<and> href \<noteq> []
              \<and> urlparse e href bscheme = Inr (scheme, netloc, path, params, query, fragment) \<longrightarrow>
            (\<exists>u. urljoin e base_url href = Inr u
                  \<and> (if scheme = bscheme
                       then (\<exists>rest. u = bscheme @ ''://''
                                        @ (if netloc = [] then bnetloc else netloc) @ rest)
                     else u = href)))
         \<and> urljoin e ''https://x.com/a/'' ''b'' = Inr ''https://x.com/a/b''
         \<and> (selected = Some el \<and> map_of (attrs el) ''href'' = Some ''b'' \<longrightarrow>
            extract_link e (Some t) selector ''https://x.com/a/'' default_value
              = Inr (Some ''https://x.com/a/b''))
         \<and> (selected = None \<or> (selected = Some el \<and> map_of (attrs el) ''href'' = None) \<longrightarrow>
            extract_link e (Some t) selector base_url default_value = Inr default_value)"
proof -
  have link: "extract_link e (Some t) selector b default_value
                = (case urljoin e b h of Inl x \<Rightarrow> Inl x | Inr u \<Rightarrow> Inr (Some u))"
    if "selected = Some el" "map_of (attrs el) ''href'' = Some h" for b h
    using assms that by (auto simp: extract_link_def split: option.splits)
  have dflt: "extract_link e (Some t) selector base_url default_value = Inr default_value"
    if "selected = None \<or> (selected = Some el \<and> map_of (attrs el) ''href'' = None)"
    using assms that by (auto simp: extract_link_def split: option.splits)
  show ?thesis
    using link [of href base_url] link [of "''b''" "''https://x.com/a/''"] dflt
      urljoin_raises [of base_url href e x] urljoin_unbalanced [of e] urljoin_example [of e]
      urljoin_absolute [of e base_url bscheme bnetloc bpath bparams bquery bfragment href
                          scheme netloc path params query fragment]
    by simp
qed

theorem extract_link_resolves_witness:
  "extract_link sample_env (Some (leaf [(''href'', ''b'')] ''next'')) [] ''https://x.com/a/'' (Some [])
     = Inr (Some ''https://x.com/a/b'')
   \<and> extract_link sample_env (Some (leaf [(''href'', ''//[127.0.0.1]/p'')] ''next'')) []
         ''https://x.com/a/'' (Some [])
     = Inl (Raised ValueError ''An IPv4 address cannot be in brackets'')
   \<and> (\<exists>rest. extract_link sample_env (Some (leaf [(''href'', ''//y.org/p'')] ''next'')) []
                 ''https://x.com/a/'' (Some [])
               = Inr (Some (''https://y.org'' @ rest)))
   \<and> extract_link sample_env (Some (leaf [(''href'', ''mailto:a@b'')] ''next'')) []
         ''https://x.com/a/'' (Some [])
     = Inr (Some ''mailto:a@b'')
   \<and> extract_link sample_env (Some (leaf [(''class'', ''x'')] ''next'')) [] ''https://x.com/a/''
         (Some ''none'')
     = Inr (Some ''none'')
   \<and> extract_link sample_env (Some (leaf [] ''next'')) ''a.more'' ''https://x.com/a/'' None
     = Inr None"
proof -
  have base: "urlparse sample_env ''https://x.com/a/'' []
                = Inr (''https'', ''x.com'', ''/a/'', [], [], [])"
    by code_simp
  have https: "''https'' \<in> set uses_relative" "''https'' \<in> set uses_netloc"
    by (simp_all add: uses_relative_def uses_netloc_def)
  have href: "map_of (attrs (leaf [(''href'', h)] ''next'')) ''href'' = Some h" for h
    by (simp add: leaf_def mk_element_def)
  have a2: "map_of (attrs (leaf [(''class'', ''x'')] ''next'')) ''href'' = None"
    by (simp add: leaf_def mk_element_def)
  have a3: "select_one (leaf [] ''next'') ''a.more'' = None"
    by (simp add: leaf_def mk_element_def select_one_def)
  have p1: "urlparse sample_env ''b'' ''https'' = Inr (''https'', [], ''b'', [], [], [])"
    by code_simp
  have p2: "urlparse sample_env ''//[127.0.0.1]/p'' ''https''
              = Inl (Raised ValueError ''An IPv4 address cannot be in brackets'')"
    by code_simp
  have p3: "urlparse sample_env ''//y.org/p'' ''https''
              = Inr (''https'', ''y.org'', ''/p'', [], [], [])"
    by code_simp
  have p4: "urlparse sample_env ''mailto:a@b'' ''https''
              = Inr (''mailto'', [], ''a@b'', [], [], [])"
    by code_simp
  have c1: "extract_link sample_env (Some (leaf [(''href'', ''b'')] ''next'')) []
              ''https://x.com/a/'' (Some [])
            = Inr (Some ''https://x.com/a/b'')"
    using extract_link_resolves
            [where selected = "if [] = [] then Some (leaf [(''href'', ''b'')] ''next'') else select_one (leaf [(''href'', ''b'')] ''next'') ([])"
               and selector = "[]" and t = "leaf [(''href'', ''b'')] ''next''" and el = "leaf [(''href'', ''b'')] ''next''"
               and href = "''b''" and e = sample_env and base_url = "''https://x.com/a/''"
               and default_value = "Some []" and x = "Raised ValueError []"
               and bscheme = "''https''" and bnetloc = "''x.com''" and bpath = "''/a/''"
               and bparams = "[]" and bquery = "[]" and bfragment = "[]"
               and scheme = "''https''" and netloc = "[]" and path = "''b''"
               and params = "[]" and query = "[]" and fragment = "[]", OF refl]
          href [of "''b''"]
    by simp
  have c2: "extract_link sample_env (Some (leaf [(''href'', ''//[127.0.0.1]/p'')] ''next'')) []
              ''https://x.com/a/'' (Some [])
            = Inl (Raised ValueError ''An IPv4 address cannot be in brackets'')"
    using extract_link_resolves
            [where selected = "if [] = [] then Some (leaf [(''href'', ''//[127.0.0.1]/p'')] ''next'') else select_one (leaf [(''href'', ''//[127.0.0.1]/p'')] ''next'') ([])"
               and selector = "[]" and t = "leaf [(''href'', ''//[127.0.0.1]/p'')] ''next''" and el = "leaf [(''href'', ''//[127.0.0.1]/p'')] ''next''"
               and href = "''//[127.0.0.1]/p''" and e = sample_env and base_url = "''https://x.com/a/''"
               and default_value = "Some []" and x = "Raised ValueError ''An IPv4 address cannot be in brackets''"
               and bscheme = "''https''" and bnetloc = "''x.com''" and bpath = "''/a/''"
               and bparams = "[]" and bquery = "[]" and bfragment = "[]"
               and scheme = "''https''" and netloc = "[]" and path = "''b''"
               and params = "[]" and query = "[]" and fragment = "[]", OF refl]
          href [of "''//[127.0.0.1]/p''"] base p2
    by simp
  have c3: "\<exists>rest. extract_link sample_env (Some (leaf [(''href'', ''//y.org/p'')] ''next'')) []
                     ''https://x.com/a/'' (Some [])
                   = Inr (Some (''https://y.org'' @ rest))"
    using extract_link_resolves
            [where selected = "if [] = [] then Some (leaf [(''href'', ''//y.org/p'')] ''next'') else select_one (leaf [(''href'', ''//y.org/p'')] ''next'') ([])"
               and selector = "[]" and t = "leaf [(''href'', ''//y.org/p'')] ''next''" and el = "leaf [(''href'', ''//y.org/p'')] ''next''"
               and href = "''//y.org/p''" and e = sample_env and base_url = "''https://x.com/a/''"
               and default_value = "Some []" and x = "Raised ValueError []"
               and bscheme = "''https''" and bnetloc = "''x.com''" and bpath = "''/a/''"
               and bparams = "[]" and bquery = "[]" and bfragment = "[]"
               and scheme = "''https''" and netloc = "''y.org''" and path = "''/p''"
               and params = "[]" and query = "[]" and fragment = "[]", OF refl]
          href [of "''//y.org/p''"] base p3 https
    by auto
  have c4: "extract_link sample_env (Some (leaf [(''href'', ''mailto:a@b'')] ''next'')) []
              ''https://x.com/a/'' (Some [])
            = Inr (Some ''mailto:a@b'')"
    using extract_link_resolves
            [where selected = "if [] = [] then Some (leaf [(''href'', ''mailto:a@b'')] ''next'') else select_one (leaf [(''href'', ''mailto:a@b'')] ''next'') ([])"
               and selector = "[]" and t = "leaf [(''href'', ''mailto:a@b'')] ''next''" and el = "leaf [(''href'', ''mailto:a@b'')] ''next''"
               and href = "''mailto:a@b''" and e = sample_env and base_url = "''https://x.com/a/''"
               and default_value = "Some []" and x = "Raised ValueError []"
               and bscheme = "''https''" and bnetloc = "''x.com''" and bpath = "''/a/''"
               and bparams = "[]" and bquery = "[]" and bfragment = "[]"
               and scheme = "''mailto''" and netloc = "[]" and path = "''a@b''"
               and params = "[]" and query = "[]" and fragment = "[]", OF refl]
          href [of "''mailto:a@b''"] base p4 https
    by auto
  have c5: "extract_link sample_env (Some (leaf [(''class'', ''x'')] ''next'')) []
              ''https://x.com/a/'' (Some ''none'')
            = Inr (Some ''none'')"
    using extract_link_resolves
            [where selected = "if [] = [] then Some (leaf [(''class'', ''x'')] ''next'') else select_one (leaf [(''class'', ''x'')] ''next'') ([])"
               and selector = "[]" and t = "leaf [(''class'', ''x'')] ''next''" and el = "leaf [(''class'', ''x'')] ''next''"
               and href = "''b''" and e = sample_env and base_url = "''https://x.com/a/''"
               and default_value = "Some ''none''" and x = "Raised ValueError []"
               and bscheme = "''https''" and bnetloc = "''x.com''" and bpath = "''/a/''"
               and bparams = "[]" and bquery = "[]" and bfragment = "[]"
               and scheme = "''https''" and netloc = "[]" and path = "''b''"
               and params = "[]" and query = "[]" and fragment = "[]", OF refl]
          a2
    by simp
  have c6: "extract_link sample_env (Some (leaf [] ''next'')) ''a.more'' ''https://x.com/a/'' None
            = Inr None"
    using extract_link_resolves
            [where selected = "if ''a.more'' = [] then Some (leaf [] ''next'') else select_one (leaf [] ''next'') (''a.more'')"
               and selector = "''a.more''" and t = "leaf [] ''next''" and el = "leaf [] ''next''"
               and href = "''b''" and e = sample_env and base_url = "''https://x.com/a/''"
               and default_value = "None" and x = "Raised ValueError []"
               and bscheme = "''https''" and bnetloc = "''x.com''" and bpath = "''/a/''"
               and bparams = "[]" and bquery = "[]" and bfragment = "[]"
               and scheme = "''https''" and netloc = "[]" and path = "''b''"
               and params = "[]" and query = "[]" and fragment = "[]", OF refl]
          a3
    by simp
  show ?thesis
    using c1 c2 c3 c4 c5 c6 by blast
qed

lemma filter_dropWhile_not: "filter p (dropWhile (\<lambda>x. \<not> p x) xs) = filter p xs"
  by (induction xs) auto

lemma sub_non_printable_filter: "sub_non_printable s = filter printable s"
  by (induction s rule: sub_non_printable.induct) (auto simp: filter_dropWhile_not)

lemma process_paragraphs_map:
  "process_paragraphs ps acc
     = acc @ map (\<lambda>t. str_replace CHR '','' CHR '' '' (str_replace (CHR 0x0A) CHR '' '' t))
               (filter (\<lambda>t. t \<noteq> []) (map get_text ps))"
  by (induction ps arbitrary: acc) (auto simp: Let_def)

lemma str_replace_twice:
  "str_replace CHR '','' CHR '' '' (str_replace (CHR 0x0A) CHR '' '' t)
     = map (\<lambda>c. if c = CHR 0x0A \<or> c = CHR '','' then CHR '' '' else c) t"
  by (auto simp: str_replace_def)

text \<open>
  C9, as stated, fails: before the texts are joined, every comma and every newline
  inside a text is replaced by a space. On the sample page the first paragraph is
  \<open>a,b\<close>; the result has \<open>a b\<close> where C9 has \<open>a,b\<close>.
\<close>

theorem extract_content_commas_counterexample:
  "extract_content sample_detail ''div.content-module'' = ''a b || caf || c''
   \<and> extract_content_as_claimed sample_detail ''div.content-module'' = ''a,b || caf || c''"
  by code_simp

text \<open>
  C9, amended. \<open>extract_content\<close> takes the texts of the \<open>p\<close>, \<open>h2\<close>, \<open>h3\<close> and \<open>li\<close>
  elements inside the selected element, drops the empty ones, replaces every newline and
  every comma in each text by a space, joins the texts with \<open>" || "\<close>, and removes from
  the joined string every character outside 0x20 to 0x7E; every character of the result
  is in that range. When the selector matches nothing the result is empty.
\<close>

theorem extract_content_joined:
  "extract_content soup content_selector =
     (case select_one soup content_selector of
        None \<Rightarrow> []
      | Some content_div \<Rightarrow>
          filter printable
            (str_join '' || ''
               (map (map (\<lambda>c. if c = CHR 0x0A \<or> c = CHR '','' then CHR '' '' else c))
                  (filter (\<lambda>t. t \<noteq> [])
                     (map get_text (find_all content_div [''p'', ''h2'', ''h3'', ''li''] None))))))
   \<and> list_all printable (extract_content soup content_selector)"
  by (auto simp: extract_content_def sub_non_printable_filter process_paragraphs_map
        str_replace_twice list_all_iff split: option.splits)

theorem extract_content_joined_witness:
  "extract_content sample_detail ''div.content-module'' = ''a b || caf || c''
   \<and> list_all printable (extract_content sample_detail ''div.content-module'')
   \<and> extract_content sample_detail ''div.missing'' = []"
proof -
  have a: "select_one sample_detail ''div.missing'' = None"
    by code_simp
  have b: "extract_content sample_detail ''div.content-module'' = ''a b || caf || c''"
    by code_simp
  have c: "list_all printable (extract_content sample_detail ''div.content-module'')"
    using extract_content_joined [of sample_detail "''div.content-module''"] by blast
  have d: "extract_content sample_detail ''div.missing'' = []"
    using extract_content_joined [of sample_detail "''div.missing''"] a by simp
  show ?thesis
    using b c d by blast
qed

subsection \<open>The set of articles\<close>

lemma set_add_in:
  fixes a :: Article and s :: "Article list"
  shows "list_ex (\<lambda>b. Article_hash e b = Article_hash e a \<and> Article_eq b a) s
     \<longleftrightarrow> (title a, url a) \<in> set (map (\<lambda>a. (title a, url a)) s)"
proof
  assume "list_ex (\<lambda>b. Article_hash e b = Article_hash e a \<and> Article_eq b a) s"
  then obtain b where "b \<in> set s" and "title b = title a" and "url b = url a"
    by (auto simp: list_ex_iff Article_eq_def)
  then show "(title a, url a) \<in> set (map (\<lambda>a. (title a, url a)) s)"
    by (metis (mono_tags, lifting) image_eqI set_map)
next
  assume "(title a, url a) \<in> set (map (\<lambda>a. (title a, url a)) s)"
  then obtain b where "b \<in> set s" and "title b = title a" and "url b = url a"
    by auto
  then show "list_ex (\<lambda>b. Article_hash e b = Article_hash e a \<and> Article_eq b a) s"
    unfolding list_ex_iff Article_eq_def Article_hash_def by metis
qed

lemma set_add_distinct:
  "distinct (map (\<lambda>a. (title a, url a)) s)
   \<Longrightarrow> distinct (map (\<lambda>a. (title a, url a)) (set_add e s a))"
  unfolding set_add_def set_add_in by auto

lemma set_add_keys:
  "set (map (\<lambda>a. (title a, url a)) (set_add e s a))
     = insert (title a, url a) (set (map (\<lambda>a. (title a, url a)) s))"
  unfolding set_add_def set_add_in by auto

lemma foldl_set_add_distinct:
  "distinct (map (\<lambda>a. (title a, url a)) s)
   \<Longrightarrow> distinct (map (\<lambda>a. (title a, url a)) (foldl (set_add e) s xs))"
  by (induction xs arbitrary: s) (auto simp: set_add_distinct)

lemma foldl_set_add_keys:
  "set (map (\<lambda>a. (title a, url a)) (foldl (set_add e) s xs))
     = set (map (\<lambda>a. (title a, url a)) s) \<union> set (map (\<lambda>a. (title a, url a)) xs)"
  by (induction xs arbitrary: s) (auto simp: set_add_keys simp del: set_map)

lemma sites_loop_distinct:
  "sites_loop e min_date cs driver all_articles errors = Some (all', errors', driver')
   \<Longrightarrow> distinct (map (\<lambda>a. (title a, url a)) all_articles)
   \<Longrightarrow> distinct (map (\<lambda>a. (title a, url a)) all')"
proof (induction cs arbitrary: driver all_articles errors)
  case Nil
  then show ?case by simp
next
  case (Cons c cs)
  then show ?case
    by (auto simp: set_update_def foldl_set_add_distinct split: option.splits sum.splits prod.splits)
qed

text \<open>
  C2. Two articles are equal exactly when they have the same title and the same url,
  whatever their other fields, and then they have the same hash. In the set that
  \<open>scrape_selected_sites\<close> returns, no two articles have the same title and url.
\<close>

theorem Article_identity_title_url:
  "(title a = title b \<and> url a = url b \<longrightarrow>
      Article_eq a b \<and> Article_hash e a = Article_hash e b)
   \<and> (Article_eq a b \<longrightarrow> title a = title b \<and> url a = url b)
   \<and> (scrape_selected_sites e create_webdriver configs min_date = Some (Inr (all_articles, errors))
      \<longrightarrow> distinct (map (\<lambda>a. (title a, url a)) all_articles))"
proof -
  have "distinct (map (\<lambda>a. (title a, url a)) all_articles)"
    if "scrape_selected_sites e create_webdriver configs min_date = Some (Inr (all_articles, errors))"
  proof -
    from that obtain driver driver'
      where "sites_loop e min_date configs driver [] [] = Some (all_articles, errors, driver')"
      by (auto simp: scrape_selected_sites_def split: sum.splits option.splits)
    then show ?thesis
      using sites_loop_distinct by fastforce
  qed
  then show ?thesis
    by (auto simp: Article_eq_def Article_hash_def)
qed

theorem Article_identity_title_url_witness:
  "title mirror_first = title mirror_second \<and> url mirror_first = url mirror_second
   \<and> date mirror_first \<noteq> date mirror_second \<and> tags mirror_first \<noteq> tags mirror_second
   \<and> Article_eq mirror_first mirror_second
   \<and> Article_hash sample_env mirror_first = Article_hash sample_env mirror_second
   \<and> title mirror_first = title (mirror_first\<lparr>url := Some ''https://mirror.example/a1''\<rparr>)
   \<and> \<not> Article_eq mirror_first (mirror_first\<lparr>url := Some ''https://mirror.example/a1''\<rparr>)
   \<and> url mirror_first = url (mirror_first\<lparr>title := Some ''First, again''\<rparr>)
   \<and> \<not> Article_eq mirror_first (mirror_first\<lparr>title := Some ''First, again''\<rparr>)
   \<and> scrape_selected_sites sample_env (Inr 0) sample_configs 739254
       = Some (Inr (sample_articles, [(''Down'', ''Connection refused'')]))
   \<and> distinct (map (\<lambda>a. (title a, url a)) sample_articles)"
proof -
  have keys: "title mirror_first = title mirror_second \<and> url mirror_first = url mirror_second
              \<and> date mirror_first \<noteq> date mirror_second \<and> tags mirror_first \<noteq> tags mirror_second"
    by (simp add: mirror_first_def mirror_second_def)
  have other_url:
    "title mirror_first = title (mirror_first\<lparr>url := Some ''https://mirror.example/a1''\<rparr>)
     \<and> url mirror_first \<noteq> url (mirror_first\<lparr>url := Some ''https://mirror.example/a1''\<rparr>)"
    by (simp add: mirror_first_def)
  have other_title:
    "url mirror_first = url (mirror_first\<lparr>title := Some ''First, again''\<rparr>)
     \<and> title mirror_first \<noteq> title (mirror_first\<lparr>title := Some ''First, again''\<rparr>)"
    by (simp add: mirror_first_def)
  have run: "scrape_selected_sites sample_env (Inr 0) sample_configs 739254
               = Some (Inr (sample_articles, [(''Down'', ''Connection refused'')]))"
    by code_simp
  show ?thesis
    using Article_identity_title_url [of mirror_first mirror_second sample_env "Inr 0"
            sample_configs 739254 sample_articles "[(''Down'', ''Connection refused'')]"]
          Article_identity_title_url [of mirror_first
            "mirror_first\<lparr>url := Some ''https://mirror.example/a1''\<rparr>" sample_env "Inr 0"
            sample_configs 739254 sample_articles "[(''Down'', ''Connection refused'')]"]
          Article_identity_title_url [of mirror_first
            "mirror_first\<lparr>title := Some ''First, again''\<rparr>" sample_env "Inr 0"
            sample_configs 739254 sample_articles "[(''Down'', ''Connection refused'')]"]
          keys other_url other_title run
    by blast
qed

subsection \<open>The run over the selected sites\<close>

lemma set_add_represents:
  "(\<exists>b\<in>set (set_add e s a). Article_eq b a)
   \<and> (\<forall>x\<in>set s. x \<in> set (set_add e s a))"
  by (auto simp: set_add_def list_ex_iff Article_eq_def)

lemma foldl_set_add_keeps:
  "x \<in> set s \<Longrightarrow> x \<in> set (foldl (set_add e) s xs)"
  by (induction xs arbitrary: s) (auto simp: set_add_def)

lemma foldl_set_add_represents:
  "a \<in> set xs \<Longrightarrow> \<exists>b\<in>set (foldl (set_add e) s xs). Article_eq b a"
proof (induction xs arbitrary: s)
  case Nil
  then show ?case by simp
next
  case (Cons x xs)
  show ?case
  proof (cases "a = x")
    case True
    obtain b where "b \<in> set (set_add e s x)" and "Article_eq b x"
      using set_add_represents by blast
    then show ?thesis
      using True foldl_set_add_keeps by fastforce
  next
    case False
    then show ?thesis
      using Cons by simp
  qed
qed

lemma Article_eq_trans: "Article_eq c b \<Longrightarrow> Article_eq b a \<Longrightarrow> Article_eq c a"
  by (simp add: Article_eq_def)

lemma set_update_represents:
  "a \<in> set scraped \<Longrightarrow> \<exists>b\<in>set (set_update e s (py_set e scraped)). Article_eq b a"
proof -
  assume "a \<in> set scraped"
  then obtain b where b: "b \<in> set (py_set e scraped)" "Article_eq b a"
    unfolding py_set_def using foldl_set_add_represents by blast
  then obtain c where "c \<in> set (set_update e s (py_set e scraped))" "Article_eq c b"
    unfolding set_update_def using foldl_set_add_represents by blast
  then show ?thesis
    using b Article_eq_trans by blast
qed

lemma sites_loop_runs_all:
  "site_outcomes min_date cs driver = Some outs \<Longrightarrow>
   \<exists>all' driver'.
     sites_loop e min_date cs driver all_articles errors = Some (all', errors @ raised outs, driver')
     \<and> set all_articles \<subseteq> set all'
     \<and> (\<forall>n scraped a. (n, Inr scraped) \<in> set outs \<and> a \<in> set scraped \<longrightarrow>
           (\<exists>b\<in>set all'. Article_eq b a))"
proof (induction cs arbitrary: driver all_articles errors outs)
  case Nil
  then show ?case by auto
next
  case (Cons c cs)
  from Cons.prems obtain r d1 outs1
    where step: "scraper_class c (site_url c) min_date driver = Some (r, d1)"
      and rest: "site_outcomes min_date cs d1 = Some outs1"
      and outs: "outs = (name c, r) # outs1"
    by (auto split: option.splits prod.splits)
  show ?case
  proof (cases r)
    case (Inl x)
    from Cons.IH [OF rest, of all_articles "errors @ [(name c, exn_str x)]"]
    show ?thesis
      using step outs Inl by auto
  next
    case (Inr scraped)
    let ?all1 = "set_update e all_articles (py_set e scraped)"
    from Cons.IH [OF rest, of ?all1 errors]
    obtain all' driver' where
      loop: "sites_loop e min_date cs d1 ?all1 errors = Some (all', errors @ raised outs1, driver')"
      and sub: "set ?all1 \<subseteq> set all'"
      and rep: "\<forall>n scraped a. (n, Inr scraped) \<in> set outs1 \<and> a \<in> set scraped \<longrightarrow>
                  (\<exists>b\<in>set all'. Article_eq b a)"
      by blast
    have keep: "set all_articles \<subseteq> set ?all1"
      unfolding set_update_def using foldl_set_add_keeps by blast
    have here: "\<forall>a\<in>set scraped. \<exists>b\<in>set all'. Article_eq b a"
      using set_update_represents sub by blast
    show ?thesis
      using step outs Inr loop sub rep keep here by auto
  qed
qed

lemma site_outcomes_length:
  "site_outcomes min_date cs driver = Some outs \<Longrightarrow> map fst outs = map name cs"
  by (induction cs arbitrary: driver outs) (auto split: option.splits prod.splits)

text \<open>
  C7. When every selected site returns (a list, or by raising), so does
  \<open>scrape_selected_sites\<close>: every site has been run, in the order of the configuration,
  also those after a site that raised; the sites that raised are in \<open>errors\<close> with
  \<open>str(e)\<close>; and every article a site returned has an equal article in the result.
\<close>

theorem scrape_selected_sites_continues:
  assumes "site_outcomes min_date configs driver = Some outs"
  shows "\<exists>all_articles.
           scrape_selected_sites e (Inr driver) configs min_date
             = Some (Inr (all_articles, raised outs))
           \<and> map fst outs = map name configs
           \<and> (\<forall>n scraped a. (n, Inr scraped) \<in> set outs \<and> a \<in> set scraped \<longrightarrow>
                 (\<exists>b\<in>set all_articles. Article_eq b a))"
  using sites_loop_runs_all [OF assms, of e "[]" "[]"] site_outcomes_length [OF assms]
  by (auto simp: scrape_selected_sites_def)

theorem scrape_selected_sites_continues_witness:
  "site_outcomes 739254 sample_configs (0::nat) = Some sample_outcomes
   \<and> (\<exists>all_articles.
         scrape_selected_sites sample_env (Inr 0) sample_configs 739254
           = Some (Inr (all_articles, [(''Down'', ''Connection refused'')]))
         \<and> (\<exists>b\<in>set all_articles. Article_eq b cisa_new)
         \<and> (\<exists>b\<in>set all_articles. Article_eq b mirror_second))"
proof -
  have o: "site_outcomes 739254 sample_configs (0::nat) = Some sample_outcomes"
    by code_simp
  have r: "raised sample_outcomes = [(''Down'', ''Connection refused'')]"
    by (simp add: sample_outcomes_def)
  have c: "(''CISA'', Inr [cisa_new]) \<in> set sample_outcomes"
    and m: "(''Mirror'', Inr [mirror_first, mirror_second]) \<in> set sample_outcomes"
    by (simp_all add: sample_outcomes_def)
  from scrape_selected_sites_continues [OF o, of sample_env]
  obtain all_articles where
    run: "scrape_selected_sites sample_env (Inr 0) sample_configs 739254
            = Some (Inr (all_articles, raised sample_outcomes))"
    and rep: "\<forall>n scraped a. (n, Inr scraped) \<in> set sample_outcomes \<and> a \<in> set scraped \<longrightarrow>
                (\<exists>b\<in>set all_articles. Article_eq b a)"
    by blast
  have "\<exists>b\<in>set all_articles. Article_eq b cisa_new"
    using rep c by fastforce
  moreover have "\<exists>b\<in>set all_articles. Article_eq b mirror_second"
    using rep m by fastforce
  ultimately show ?thesis
    using o run r by auto
qed

subsection \<open>The loop over the articles of a page\<close>








subsection \<open>The dates of the articles returned\<close>

text \<open>
  In \<open>InfoSecurityMagazineScraper\<close> every article is built after its date passed
  \<open>is_article_valid\<close>, so every article that \<open>scrape\<close> returns has a string as its date,
  or a date that is not before the cutoff.
\<close>

lemma InfoSecurityMagazineScraper_details_valid:
  "InfoSecurityMagazineScraper_extract_article_details e base_url min_date x = Inr (Some a)
   \<Longrightarrow> truthy (is_article_valid min_date (date a))"
  by (auto simp: InfoSecurityMagazineScraper_extract_article_details_def Let_def
        split: sum.splits if_splits)

lemma InfoSecurityMagazineScraper_articles_loop_valid:
  "InfoSecurityMagazineScraper_articles_loop e base_url min_date xs acc = Inr (acc', stop)
   \<Longrightarrow> \<forall>a\<in>set acc. truthy (is_article_valid min_date (date a))
   \<Longrightarrow> \<forall>a\<in>set acc'. truthy (is_article_valid min_date (date a))"
proof (induction xs arbitrary: acc)
  case Nil
  then show ?case by simp
next
  case (Cons x xs)
  show ?case
  proof (cases "InfoSecurityMagazineScraper_extract_article_details e base_url min_date x")
    case (Inl err)
    then show ?thesis using Cons.prems by simp
  next
    case (Inr r)
    show ?thesis
    proof (cases r)
      case None
      then show ?thesis using Inr Cons.prems by simp
    next
      case (Some a)
      then have "truthy (is_article_valid min_date (date a))"
        using Inr InfoSecurityMagazineScraper_details_valid by blast
      then show ?thesis
        using Cons.IH [of "acc @ [a]"] Cons.prems Inr Some by simp
    qed
  qed
qed

lemma InfoSecurityMagazineScraper_scrape_loop_step:
  assumes "InfoSecurityMagazineScraper_scrape_loop e base_url min_date (Suc fuel) page_number acc
             = Some (Inr arts)"
  shows "arts = acc
         \<or> (\<exists>items acc' stop.
               InfoSecurityMagazineScraper_articles_loop e base_url min_date items acc
                 = Inr (acc', stop)
               \<and> (if stop then arts = acc'
                   else InfoSecurityMagazineScraper_scrape_loop e base_url min_date fuel
                          (page_number + 1) acc' = Some (Inr arts)))"
proof -
  let ?u = "if page_number > 1 then base_url @ ''/page-'' @ str_nat page_number @ ''/''
            else base_url"
  show ?thesis
  proof (cases "fetch_page_content e ?u False")
    case (Inl x)
    then show ?thesis using assms by simp
  next
    case (Inr r)
    obtain page_content printed where r: "r = (page_content, printed)"
      by (cases r)
    show ?thesis
    proof (cases page_content)
      case None
      then show ?thesis using assms Inr r by simp
    next
      case (Some c)
      let ?items = "InfoSecurityMagazineScraper_extract_articles (parse_html e c)"
      show ?thesis
      proof (cases "c = [] \<or> ?items = []")
        case True
        then have "arts = acc"
          using assms Inr r Some by (cases "c = []") (simp_all add: Let_def)
        then show ?thesis by simp
      next
        case False
        show ?thesis
        proof (cases "InfoSecurityMagazineScraper_articles_loop e base_url min_date ?items acc")
          case (Inl x)
          then show ?thesis using assms Inr r Some False by (simp add: Let_def)
        next
          case loop: (Inr q)
          obtain acc' stop where q: "q = (acc', stop)"
            by (cases q)
          have "if stop then arts = acc'
                else InfoSecurityMagazineScraper_scrape_loop e base_url min_date fuel
                       (page_number + 1) acc' = Some (Inr arts)"
            using assms Inr r Some False loop q by (cases stop) (simp_all add: Let_def)
          then show ?thesis
            using loop q by blast
        qed
      qed
    qed
  qed
qed

lemma InfoSecurityMagazineScraper_scrape_loop_valid:
  "InfoSecurityMagazineScraper_scrape_loop e base_url min_date fuel page_number acc
     = Some (Inr arts)
   \<Longrightarrow> \<forall>a\<in>set acc. truthy (is_article_valid min_date (date a))
   \<Longrightarrow> \<forall>a\<in>set arts. truthy (is_article_valid min_date (date a))"
proof (induction fuel arbitrary: page_number acc)
  case 0
  then show ?case by simp
next
  case (Suc fuel)
  from InfoSecurityMagazineScraper_scrape_loop_step [OF Suc.prems(1)]
  show ?case
  proof
    assume "arts = acc"
    then show ?thesis using Suc.prems(2) by simp
  next
    assume "\<exists>items acc' stop.
              InfoSecurityMagazineScraper_articles_loop e base_url min_date items acc
                = Inr (acc', stop)
              \<and> (if stop then arts = acc'
                  else InfoSecurityMagazineScraper_scrape_loop e base_url min_date fuel
                         (page_number + 1) acc' = Some (Inr arts))"
    then obtain items acc' stop where
      loop: "InfoSecurityMagazineScraper_articles_loop e base_url min_date items acc
               = Inr (acc', stop)"
      and after: "if stop then arts = acc'
                  else InfoSecurityMagazineScraper_scrape_loop e base_url min_date fuel
                         (page_number + 1) acc' = Some (Inr arts)"
      by blast
    have v: "\<forall>a\<in>set acc'. truthy (is_article_valid min_date (date a))"
      using InfoSecurityMagazineScraper_articles_loop_valid [OF loop Suc.prems(2)] .
    show ?thesis
    proof (cases stop)
      case True
      then show ?thesis using after v by simp
    next
      case False
      then show ?thesis using after v Suc.IH by simp
    qed
  qed
qed

lemma truthy_is_article_valid:
  "truthy (is_article_valid min_date d)
   \<longleftrightarrow> (\<exists>s. d = DateStr s) \<or> (\<exists>day. d = DateVal day \<and> min_date \<le> day)"
  by (cases d) auto

lemma InfoSecurityMagazineScraper_scrape_dates:
  "InfoSecurityMagazineScraper_scrape e base_url min_date fuel = Some (Inr arts)
   \<Longrightarrow> a \<in> set arts
   \<Longrightarrow> (\<exists>s. date a = DateStr s) \<or> (\<exists>day. date a = DateVal day \<and> min_date \<le> day)"
  unfolding InfoSecurityMagazineScraper_scrape_def
  using InfoSecurityMagazineScraper_scrape_loop_valid [of e base_url min_date fuel 1 "[]" arts]
  by (simp add: truthy_is_article_valid)

text \<open>
  C1. \<open>CyberSecurityDiveScraper\<close> has the same loop over the articles, but on the first
  page it also adds the featured articles, whose dates are never given to
  \<open>is_article_valid\<close>. On the sample page, with the cutoff 2025-01-03 (day 739254), the
  list returned holds the hero article, dated 2020-01-05 (day 737429), and a top story
  whose date is \<open>None\<close>.
\<close>

theorem CyberSecurityDiveScraper_featured_not_validated:
  "CyberSecurityDiveScraper_scrape sample_env ''https://dive.example/'' 739254 5
     = Some (Inr [dive_hero, dive_story, dive_feed])
   \<and> date dive_hero = DateVal 737429
   \<and> \<not> truthy (is_article_valid 739254 (date dive_hero))
   \<and> date dive_story = DateNone"
  by code_simp

subsection \<open>Relative dates\<close>

lemma is_digit_digit_char: "d < 10 \<Longrightarrow> is_digit (digit_char d)"
  by (simp add: is_digit_def digit_char_def)

lemma str_nat_nonempty: "str_nat n \<noteq> []"
  by (subst str_nat.simps) simp

lemma str_nat_digits: "c \<in> set (str_nat n) \<Longrightarrow> is_digit c"
proof (induction n rule: str_nat.induct)
  case (1 n)
  show ?case
  proof (cases "n < 10")
    case True
    with "1.prems" show ?thesis
      by (subst (asm) str_nat.simps) (simp add: is_digit_digit_char)
  next
    case False
    with "1.prems" have "c \<in> set (str_nat (n div 10)) \<or> c = digit_char (n mod 10)"
      by (subst (asm) str_nat.simps) auto
    then show ?thesis
      using "1.IH" False by (auto simp: is_digit_digit_char)
  qed
qed

lemma digits_value_snoc: "digits_value (s @ [c]) = 10 * digits_value s + (int (of_char c) - 48)"
  by (simp add: digits_value_def)

lemma digits_value_digit_char: "d < 10 \<Longrightarrow> digits_value [digit_char d] = int d"
  by (simp add: digits_value_def digit_char_def)

lemma digits_value_str_nat: "digits_value (str_nat n) = int n"
proof (induction n rule: str_nat.induct)
  case (1 n)
  show ?case
  proof (cases "n < 10")
    case True
    then show ?thesis
      by (subst str_nat.simps) (simp add: digits_value_digit_char)
  next
    case False
    have "int (of_char (digit_char (n mod 10))) - 48 = int (n mod 10)"
      by (simp add: digit_char_def)
    then have "digits_value (str_nat n) = 10 * int (n div 10) + int (n mod 10)"
      using False "1.IH" by (subst str_nat.simps) (simp add: digits_value_snoc)
    moreover have "int n = int (10 * (n div 10) + n mod 10)"
      by simp
    moreover have "int (10 * (n div 10) + n mod 10) = 10 * int (n div 10) + int (n mod 10)"
      by (simp only: of_nat_add of_nat_mult of_nat_numeral)
    ultimately show ?thesis
      by simp
  qed
qed

lemma length_str_nat: "n < 10 ^ Suc k \<Longrightarrow> length (str_nat n) \<le> Suc k"
proof (induction k arbitrary: n)
  case 0
  then show ?case
    by (subst str_nat.simps) simp
next
  case (Suc k)
  show ?case
  proof (cases "n < 10")
    case True
    then show ?thesis
      by (subst str_nat.simps) simp
  next
    case False
    have "n div 10 < 10 ^ Suc k"
      using Suc.prems by (simp add: less_mult_imp_div_less)
    then have "length (str_nat (n div 10)) \<le> Suc k"
      by (rule Suc.IH)
    then show ?thesis
      using False by (subst str_nat.simps) simp
  qed
qed

lemma py_int_str_nat: "n < 10000000 \<Longrightarrow> py_int (str_nat n) = Inr (int n)"
proof -
  assume "n < 10000000"
  then have "n < 10 ^ Suc 6"
    by simp
  then have "length (str_nat n) \<le> Suc 6"
    by (rule length_str_nat)
  then show ?thesis
    by (simp add: py_int_def digits_value_str_nat)
qed

lemma py_int_raises: "py_int s = Inl x \<Longrightarrow> exn_class x = ValueError"
  by (auto simp: py_int_def split: if_splits)

lemma greedy_longest:
  "takeWhile p s = ds \<Longrightarrow> lo \<le> length ds \<Longrightarrow> k ds (drop (length ds) s) = Some r
   \<Longrightarrow> greedy p lo s k = Some r"
proof -
  assume a: "takeWhile p s = ds" and b: "lo \<le> length ds" and c: "k ds (drop (length ds) s) = Some r"
  have "take (length ds) s = ds"
    using a by (metis takeWhile_eq_take)
  then show ?thesis
    using a b c by (simp add: greedy_def)
qed

lemma time_pattern_at_digits:
  assumes "ds \<noteq> []" and "\<forall>c\<in>set ds. is_digit c" and "\<not> is_digit x"
    and "match_unit ds (x # rest) = Some r"
  shows "re_search_time_pattern (ds @ x # rest) = Some r"
proof -
  have tw: "takeWhile is_digit (ds @ x # rest) = ds"
    using assms(2,3) by (simp add: takeWhile_append)
  have "time_pattern_at (ds @ x # rest) = Some r"
    unfolding time_pattern_at_def
    by (rule greedy_longest [OF tw]) (use assms in \<open>auto simp: Suc_le_eq\<close>)
  then show ?thesis
    using assms(1) by (cases ds) auto
qed

lemma match_ago_ago: "match_ago g1 g2 '' ago'' = Some (g1, g2)"
  by (simp add: match_ago_def greedy_def match_lit_def is_space_def)

lemma match_unit_days: "match_unit ds '' days ago'' = Some (ds, ''day'')"
  by (simp add: match_unit_def greedy_def match_lit_def is_space_def time_units_def match_ago_ago)


lemma match_unit_weeks: "match_unit ds '' weeks ago'' = Some (ds, ''week'')"
  by (simp add: match_unit_def greedy_def match_lit_def is_space_def time_units_def match_ago_ago)

lemma match_unit_months: "match_unit ds '' months ago'' = Some (ds, ''month'')"
  by (simp add: match_unit_def greedy_def match_lit_def is_space_def time_units_def match_ago_ago)

lemma match_unit_years: "match_unit ds '' years ago'' = Some (ds, ''year'')"
  by (simp add: match_unit_def greedy_def match_lit_def is_space_def time_units_def match_ago_ago)

lemma re_search_str_nat:
  assumes "match_unit (str_nat n) (CHR '' '' # rest) = Some r"
  shows "re_search_time_pattern (str_nat n @ CHR '' '' # rest) = Some r"
  by (rule time_pattern_at_digits)
     (use assms str_nat_nonempty str_nat_digits in \<open>auto simp: is_digit_def\<close>)

lemma timedelta_days: "0 \<le> d \<Longrightarrow> d \<le> 999999999 \<Longrightarrow> timedelta d 0 = Inr (d, 0)"
  by (simp add: timedelta_def)

lemma timedelta_days_overflow:
  "999999999 < d \<Longrightarrow> \<exists>msg. timedelta d 0 = Inl (Raised OverflowError msg)"
  by (simp add: timedelta_def)

lemma datetime_sub_days:
  assumes "datetime_valid today" and "0 \<le> d"
  shows "datetime_sub today (d, 0) =
           (if d < dt_ordinal today
            then Inr \<lparr>dt_ordinal = dt_ordinal today - d, dt_second = dt_second today\<rparr>
            else Inl (Raised OverflowError ''date value out of range''))"
proof -
  have s: "0 \<le> dt_second today" "dt_second today < 86400"
    and o: "dt_ordinal today \<le> 3652059"
    using assms(1) by (simp_all add: datetime_valid_def MAXORDINAL_def)
  define a where "a = dt_ordinal today - d"
  define b where "b = dt_second today"
  have e: "dt_ordinal today * 86400 + dt_second today - d * 86400 = b + a * 86400"
    by (simp add: a_def b_def algebra_simps)
  have b: "0 \<le> b" "b < 86400"
    using s by (simp_all add: b_def)
  have dv: "(dt_ordinal today * 86400 + dt_second today - d * 86400) div 86400
              = dt_ordinal today - d"
    unfolding e using b by (simp add: a_def)
  have md: "(dt_ordinal today * 86400 + dt_second today - d * 86400) mod 86400
              = dt_second today"
    unfolding e using b by (simp add: b_def)
  show ?thesis
    using dv md o assms(2) by (auto simp: datetime_sub_def MINORDINAL_def MAXORDINAL_def)
qed

lemma calculate_days_back:
  assumes "datetime_valid today"
    and "re_search_time_pattern s = Some (g1, u)"
    and "py_int g1 = Inr q"
    and "unit_delta u q = Some (timedelta d 0)"
    and "0 \<le> d"
  shows "(d < dt_ordinal today \<longrightarrow>
            calculate_article_date today s = Inr (Some (dt_ordinal today - d)))
         \<and> (\<not> d < dt_ordinal today \<longrightarrow>
            (\<exists>msg. calculate_article_date today s = Inl (Raised OverflowError msg)))"
proof (cases "d \<le> 999999999")
  case True
  then have "timedelta d 0 = Inr (d, 0)"
    using assms(5) by (rule_tac timedelta_days)
  then show ?thesis
    using assms by (simp add: calculate_article_date_def datetime_sub_days)
next
  case False
  then obtain msg where "timedelta d 0 = Inl (Raised OverflowError msg)"
    using timedelta_days_overflow [of d] by auto
  moreover have "\<not> d < dt_ordinal today"
    using False assms(1) by (simp add: datetime_valid_def MAXORDINAL_def)
  ultimately show ?thesis
    using assms by (simp add: calculate_article_date_def)
qed

text \<open>
  A quantity that \<open>int\<close> refuses or that is too far back: the function raises
  \<open>ValueError\<close> or \<open>OverflowError\<close>.
\<close>

lemma calculate_far_back:
  assumes "datetime_valid today"
    and "re_search_time_pattern s = Some (g1, u)"
    and "py_int g1 = Inl x \<or> (\<exists>q d. py_int g1 = Inr q \<and> unit_delta u q = Some (timedelta d 0)
                                  \<and> dt_ordinal today \<le> d)"
  shows "\<exists>x. calculate_article_date today s = Inl x
             \<and> (exn_class x = ValueError \<or> exn_class x = OverflowError)"
proof -
  from assms(3) show ?thesis
  proof
    assume "py_int g1 = Inl x"
    then show ?thesis
      using assms(2) py_int_raises by (auto simp: calculate_article_date_def)
  next
    assume "\<exists>q d. py_int g1 = Inr q \<and> unit_delta u q = Some (timedelta d 0)
                   \<and> dt_ordinal today \<le> d"
    then obtain q d where q: "py_int g1 = Inr q" "unit_delta u q = Some (timedelta d 0)"
      and d: "dt_ordinal today \<le> d"
      by blast
    have "0 \<le> d"
      using d assms(1) by (simp add: datetime_valid_def MINORDINAL_def)
    from calculate_days_back [OF assms(1,2) q this] d
    obtain msg where "calculate_article_date today s = Inl (Raised OverflowError msg)"
      by auto
    then show ?thesis
      by simp
  qed
qed

lemma first_some_in: "first_some xs = Some r \<Longrightarrow> Some r \<in> set xs"
  by (induction xs rule: first_some.induct) auto

lemma greedy_Some: "greedy p lo s k = Some r \<Longrightarrow> \<exists>a b. k a b = Some r"
proof -
  assume "greedy p lo s k = Some r"
  then have "Some r \<in> set (map (\<lambda>n. k (take n s) (drop n s))
                             (rev [lo ..< Suc (length (takeWhile p s))]))"
    unfolding greedy_def by (rule first_some_in)
  then obtain n where "k (take n s) (drop n s) = Some r"
    by auto
  then show ?thesis
    by blast
qed

lemma match_lit_Some: "match_lit lit s k = Some r \<Longrightarrow> \<exists>b. k b = Some r"
  by (auto simp: match_lit_def split: if_splits)

lemma match_ago_Some: "match_ago g1 g2 s = Some r \<Longrightarrow> r = (g1, g2)"
  unfolding match_ago_def by (auto dest!: greedy_Some match_lit_Some)

lemma match_unit_Some: "match_unit g1 s = Some (g, u) \<Longrightarrow> u \<in> set time_units"
proof -
  assume "match_unit g1 s = Some (g, u)"
  then obtain r where
    "first_some (map (\<lambda>u. match_lit u r (\<lambda>r'.
         first_some [match_lit ''s'' r' (match_ago g1 u), match_ago g1 u r'])) time_units)
       = Some (g, u)"
    unfolding match_unit_def by (auto dest!: greedy_Some)
  then obtain u' where u': "u' \<in> set time_units"
    and "match_lit u' r (\<lambda>r'. first_some [match_lit ''s'' r' (match_ago g1 u'), match_ago g1 u' r'])
           = Some (g, u)"
    by (auto dest!: first_some_in)
  then obtain r' where
    "first_some [match_lit ''s'' r' (match_ago g1 u'), match_ago g1 u' r'] = Some (g, u)"
    by (auto dest!: match_lit_Some)
  then have "match_lit ''s'' r' (match_ago g1 u') = Some (g, u) \<or> match_ago g1 u' r' = Some (g, u)"
    by (auto dest!: first_some_in)
  then have "(g, u) = (g1, u')"
    by (auto dest!: match_lit_Some match_ago_Some)
  then show ?thesis
    using u' by simp
qed

lemma re_search_unit: "re_search_time_pattern s = Some (g, u) \<Longrightarrow> u \<in> set time_units"
proof (induction s)
  case Nil
  then show ?case
    by (auto simp: time_pattern_at_def dest!: greedy_Some match_unit_Some)
next
  case (Cons c cs)
  then show ?case
    by (auto simp: time_pattern_at_def split: option.splits dest!: greedy_Some match_unit_Some)
qed

lemma unit_delta_known: "u \<in> set time_units \<Longrightarrow> unit_delta u q \<noteq> None"
  by (auto simp: time_units_def unit_delta_def)

lemma calculate_None_iff:
  "calculate_article_date today s = Inr None \<longleftrightarrow> re_search_time_pattern s = None"
proof
  assume a: "calculate_article_date today s = Inr None"
  show "re_search_time_pattern s = None"
  proof (rule ccontr)
    assume "re_search_time_pattern s \<noteq> None"
    then obtain g u where m: "re_search_time_pattern s = Some (g, u)"
      by auto
    then have known: "\<And>q. unit_delta u q \<noteq> None"
      using re_search_unit unit_delta_known by blast
    show False
    proof (cases "py_int g")
      case (Inl x)
      then show False
        using a m by (simp add: calculate_article_date_def)
    next
      case (Inr q)
      obtain y where "unit_delta u q = Some y"
        using known [of q] by auto
      then show False
        using a m Inr by (auto simp: calculate_article_date_def split: sum.splits)
    qed
  qed
next
  assume "re_search_time_pattern s = None"
  then show "calculate_article_date today s = Inr None"
    by (simp add: calculate_article_date_def)
qed

text \<open>
  C4, as stated, fails where the day asked for is before \<open>date.min\<close>: at noon of
  2025-01-01, \<open>"10000 years ago"\<close> is 3650000 days back, and the subtraction raises
  \<open>OverflowError\<close> instead of returning a date.
\<close>

theorem calculate_article_date_overflow_counterexample:
  "datetime_valid sample_today
   \<and> calculate_article_date sample_today ''10000 years ago''
       = Inl (Raised OverflowError ''date value out of range'')"
  by code_simp

text \<open>
  C4, amended. At a fixed \<open>today\<close>, \<open>"3 days ago"\<close> gives the day of \<open>today\<close> minus 3,
  \<open>"1 week ago"\<close> minus 7, \<open>"N months ago"\<close> minus 30 N and \<open>"N years ago"\<close> minus 365 N,
  provided that day is not before day 1 (0001-01-01); when it is, the function raises
  \<open>OverflowError\<close> (or \<open>ValueError\<close>, when N has more than 4300 digits). The result is
  \<open>None\<close> exactly when \<open>re.search\<close> finds the pattern nowhere in the text, as for
  \<open>"3 fortnights ago"\<close>.
\<close>

theorem calculate_article_date_offsets:
  assumes "datetime_valid today"
  shows "(3 < dt_ordinal today \<longrightarrow>
            calculate_article_date today ''3 days ago'' = Inr (Some (dt_ordinal today - 3)))
       \<and> (7 < dt_ordinal today \<longrightarrow>
            calculate_article_date today ''1 week ago'' = Inr (Some (dt_ordinal today - 7)))
       \<and> (30 * int n < dt_ordinal today \<longrightarrow>
            calculate_article_date today (str_nat n @ '' months ago'')
              = Inr (Some (dt_ordinal today - 30 * int n)))
       \<and> (365 * int n < dt_ordinal today \<longrightarrow>
            calculate_article_date today (str_nat n @ '' years ago'')
              = Inr (Some (dt_ordinal today - 365 * int n)))
       \<and> (\<not> 30 * int n < dt_ordinal today \<longrightarrow>
            (\<exists>x. calculate_article_date today (str_nat n @ '' months ago'') = Inl x
                  \<and> (exn_class x = ValueError \<or> exn_class x = OverflowError)))
       \<and> (\<not> 365 * int n < dt_ordinal today \<longrightarrow>
            (\<exists>x. calculate_article_date today (str_nat n @ '' years ago'') = Inl x
                  \<and> (exn_class x = ValueError \<or> exn_class x = OverflowError)))
       \<and> (calculate_article_date today s = Inr None \<longleftrightarrow> re_search_time_pattern s = None)
       \<and> calculate_article_date today ''3 fortnights ago'' = Inr None"
proof -
  have top: "dt_ordinal today \<le> 3652059"
    using assms by (simp add: datetime_valid_def MAXORDINAL_def)
  have d3: "re_search_time_pattern ''3 days ago'' = Some (''3'', ''day'')"
    by code_simp
  have w1: "re_search_time_pattern ''1 week ago'' = Some (''1'', ''week'')"
    by code_simp
  have i3: "py_int ''3'' = Inr 3" and i1: "py_int ''1'' = Inr 1"
    by (simp_all add: py_int_def digits_value_def)
  have mo: "re_search_time_pattern (str_nat n @ '' months ago'') = Some (str_nat n, ''month'')"
    using re_search_str_nat [of n "''months ago''"] match_unit_months by simp
  have ye: "re_search_time_pattern (str_nat n @ '' years ago'') = Some (str_nat n, ''year'')"
    using re_search_str_nat [of n "''years ago''"] match_unit_years by simp
  have nf: "re_search_time_pattern ''3 fortnights ago'' = None"
    by code_simp
  have um: "\<And>q. unit_delta ''month'' q = Some (timedelta (30 * q) 0)"
    and uy: "\<And>q. unit_delta ''year'' q = Some (timedelta (365 * q) 0)"
    by (simp_all add: unit_delta_def)
  note days_back = calculate_days_back [OF assms]
  have "3 < dt_ordinal today \<longrightarrow>
          calculate_article_date today ''3 days ago'' = Inr (Some (dt_ordinal today - 3))"
    using days_back [OF d3 i3, of 3] by (simp add: unit_delta_def)
  moreover have "7 < dt_ordinal today \<longrightarrow>
          calculate_article_date today ''1 week ago'' = Inr (Some (dt_ordinal today - 7))"
    using days_back [OF w1 i1, of 7] by (simp add: unit_delta_def)
  moreover have "30 * int n < dt_ordinal today \<longrightarrow>
            calculate_article_date today (str_nat n @ '' months ago'')
              = Inr (Some (dt_ordinal today - 30 * int n))"
  proof
    assume a: "30 * int n < dt_ordinal today"
    then have "n < 10000000"
      using top by linarith
    then have "py_int (str_nat n) = Inr (int n)"
      by (rule py_int_str_nat)
    from days_back [OF mo this um] a
    show "calculate_article_date today (str_nat n @ '' months ago'')
            = Inr (Some (dt_ordinal today - 30 * int n))"
      by simp
  qed
  moreover have "365 * int n < dt_ordinal today \<longrightarrow>
            calculate_article_date today (str_nat n @ '' years ago'')
              = Inr (Some (dt_ordinal today - 365 * int n))"
  proof
    assume a: "365 * int n < dt_ordinal today"
    then have "n < 10000000"
      using top by linarith
    then have "py_int (str_nat n) = Inr (int n)"
      by (rule py_int_str_nat)
    from days_back [OF ye this uy] a
    show "calculate_article_date today (str_nat n @ '' years ago'')
            = Inr (Some (dt_ordinal today - 365 * int n))"
      by simp
  qed
  moreover have "\<not> 30 * int n < dt_ordinal today \<longrightarrow>
            (\<exists>x. calculate_article_date today (str_nat n @ '' months ago'') = Inl x
                  \<and> (exn_class x = ValueError \<or> exn_class x = OverflowError))"
  proof
    assume a: "\<not> 30 * int n < dt_ordinal today"
    have "(\<exists>x. py_int (str_nat n) = Inl x)
          \<or> (\<exists>q d. py_int (str_nat n) = Inr q \<and> unit_delta ''month'' q = Some (timedelta d 0)
                     \<and> dt_ordinal today \<le> d)"
      using a um by (auto simp: py_int_def digits_value_str_nat)
    then show "\<exists>x. calculate_article_date today (str_nat n @ '' months ago'') = Inl x
                    \<and> (exn_class x = ValueError \<or> exn_class x = OverflowError)"
      using calculate_far_back [OF assms mo] by blast
  qed
  moreover have "\<not> 365 * int n < dt_ordinal today \<longrightarrow>
            (\<exists>x. calculate_article_date today (str_nat n @ '' years ago'') = Inl x
                  \<and> (exn_class x = ValueError \<or> exn_class x = OverflowError))"
  proof
    assume a: "\<not> 365 * int n < dt_ordinal today"
    have "(\<exists>x. py_int (str_nat n) = Inl x)
          \<or> (\<exists>q d. py_int (str_nat n) = Inr q \<and> unit_delta ''year'' q = Some (timedelta d 0)
                     \<and> dt_ordinal today \<le> d)"
      using a uy by (auto simp: py_int_def digits_value_str_nat)
    then show "\<exists>x. calculate_article_date today (str_nat n @ '' years ago'') = Inl x
                    \<and> (exn_class x = ValueError \<or> exn_class x = OverflowError)"
      using calculate_far_back [OF assms ye] by blast
  qed
  moreover have "calculate_article_date today ''3 fortnights ago'' = Inr None"
    using nf calculate_None_iff by blast
  ultimately show ?thesis
    using calculate_None_iff by blast
qed

theorem calculate_article_date_offsets_witness:
  "datetime_valid sample_today
   \<and> calculate_article_date sample_today ''3 days ago'' = Inr (Some 739249)
   \<and> calculate_article_date sample_today ''1 week ago'' = Inr (Some 739245)
   \<and> calculate_article_date sample_today ''2 months ago'' = Inr (Some 739192)
   \<and> calculate_article_date sample_today ''2 years ago'' = Inr (Some 738522)
   \<and> (\<exists>x. calculate_article_date sample_today ''10000 years ago'' = Inl x
             \<and> (exn_class x = ValueError \<or> exn_class x = OverflowError))
   \<and> re_search_time_pattern ''next week'' = None
   \<and> calculate_article_date sample_today ''next week'' = Inr None"
proof -
  have v: "datetime_valid sample_today"
    by code_simp
  have o: "dt_ordinal sample_today = 739252"
    by (simp add: sample_today_def)
  have s2: "str_nat 2 = ''2''" and s10000: "str_nat 10000 = ''10000''"
    by (simp_all add: str_nat.simps digit_char_def; code_simp)+
  have nw: "re_search_time_pattern ''next week'' = None"
    by code_simp
  show ?thesis
    using calculate_article_date_offsets [OF v, of 2 "''next week''"]
          calculate_article_date_offsets [OF v, of 10000 "''next week''"]
          v o s2 s10000 nw
    by simp
qed

end
